theory Spec2Isabelle
  imports Complex_Main "HOL-Library.Word" "HOL-Library.Signed_Division"
begin

section \<open>RexOS emulator bridge: data model\<close>

text \<open>
  The embedding follows \<^verbatim>\<open>include/emulator_bridge.h\<close>, \<^verbatim>\<open>src/emulator_bridge.c\<close> and
  \<^verbatim>\<open>src/performance.c\<close>.  A C string is a \<open>string\<close> (the bytes before the terminator); a
  nullable pointer argument is an \<open>option\<close>; a fixed \<^verbatim>\<open>char\<close> array whose bytes matter
  (the environment buffers filled by \<^verbatim>\<open>strncpy\<close>) is the list of its bytes.
\<close>

datatype rexos_error_t =
    REXOS_OK
  | REXOS_ERR_INVALID_ARG
  | REXOS_ERR_NOT_FOUND
  | REXOS_ERR_PERMISSION
  | REXOS_ERR_FORK_FAILED
  | REXOS_ERR_EXEC_FAILED
  | REXOS_ERR_TIMEOUT
  | REXOS_ERR_MEMORY
  | REXOS_ERR_IO
  | REXOS_ERR_INTERNAL

datatype rexos_emulator_type_t =
    REXOS_EMU_RETROARCH
  | REXOS_EMU_STANDALONE
  | REXOS_EMU_PPSSPP
  | REXOS_EMU_DRASTIC
  | REXOS_EMU_CUSTOM

datatype rexos_proc_state_t =
    REXOS_PROC_UNKNOWN
  | REXOS_PROC_RUNNING
  | REXOS_PROC_SLEEPING
  | REXOS_PROC_STOPPED
  | REXOS_PROC_ZOMBIE
  | REXOS_PROC_DEAD

definition REXOS_MAX_ARGS :: int where
  "REXOS_MAX_ARGS = 64"

definition REXOS_MAX_ENV :: int where
  "REXOS_MAX_ENV = 128"

text \<open>The terminator byte of a C string.\<close>

definition NUL :: char where
  "NUL = CHR 0x00"

text \<open>\<^verbatim>\<open>rexos_env_var_t\<close>: \<^verbatim>\<open>char key[256]; char value[1024];\<close> as byte buffers.\<close>

record rexos_env_var_t =
  env_key :: "char list"
  env_value :: "char list"

text \<open>
  \<^verbatim>\<open>rexos_launch_config_t\<close>.  The four path buffers are kept as the C strings they hold;
  \<open>args\<close> is the array of 64 \<^verbatim>\<open>char*\<close> (\<open>None\<close> is the null pointer) and \<open>env\<close> the array
  of 128 entries.  The field \<^verbatim>\<open>type\<close> is called \<open>emu_type\<close>.
\<close>

record rexos_launch_config_t =
  emu_type :: rexos_emulator_type_t
  executable :: string
  rom_path :: string
  core_path :: string
  config_path :: string
  args :: "string option list"
  arg_count :: int
  env :: "rexos_env_var_t list"
  env_count :: int
  fullscreen :: bool
  verbose :: bool
  use_32bit :: bool
  load_state_slot :: int
  cpu_affinity :: int
  nice_value :: int
  realtime_priority :: bool

section \<open>Launch configuration\<close>

text \<open>
  \<^verbatim>\<open>rexos_launch_config_init\<close>: nothing for a null pointer; otherwise \<^verbatim>\<open>memset\<close> to zero
  (empty strings, null argument pointers, zeroed environment buffers, counts 0) and the
  defaults assigned afterwards; \<open>initial_config\<close> is the structure this leaves.
\<close>

definition zeroed_env_var :: rexos_env_var_t where
  "zeroed_env_var = \<lparr>env_key = replicate 256 NUL, env_value = replicate 1024 NUL\<rparr>"

definition initial_config :: rexos_launch_config_t where
  "initial_config =
     \<lparr>emu_type = REXOS_EMU_RETROARCH,
      executable = [], rom_path = [], core_path = [], config_path = [],
      args = replicate 64 None, arg_count = 0,
      env = replicate 128 zeroed_env_var, env_count = 0,
      fullscreen = True, verbose = False, use_32bit = False,
      load_state_slot = - 1, cpu_affinity = - 1, nice_value = 0,
      realtime_priority = False\<rparr>"

definition rexos_launch_config_init ::
  "rexos_launch_config_t option \<Rightarrow> rexos_launch_config_t option" where
  "rexos_launch_config_init config =
     (case config of
        None \<Rightarrow> None
      | Some _ \<Rightarrow> Some initial_config)"

text \<open>
  \<^verbatim>\<open>rexos_launch_config_add_arg\<close>.  The third parameter says whether \<^verbatim>\<open>strdup\<close> succeeds
  (the source tests its result).  The result is the returned \<^verbatim>\<open>int\<close> and the configuration
  afterwards.  The store \<^verbatim>\<open>args[arg_count]\<close> is \<open>list_update\<close> at \<open>nat (arg_count c)\<close>, which
  is the C store for \<open>0 \<le> arg_count c < 64\<close>; the guard keeps the index below 63, and a
  negative count is outside what C defines.
\<close>

definition rexos_launch_config_add_arg ::
  "rexos_launch_config_t option \<Rightarrow> string option \<Rightarrow> bool
     \<Rightarrow> int \<times> rexos_launch_config_t option" where
  "rexos_launch_config_add_arg config arg strdup_ok =
     (case config of
        None \<Rightarrow> (- 1, config)
      | Some c \<Rightarrow>
          (case arg of
             None \<Rightarrow> (- 1, config)
           | Some a \<Rightarrow>
               if arg_count c \<ge> REXOS_MAX_ARGS - 1 then (- 1, config)
               else
                 let c1 = c\<lparr>args := (args c)[nat (arg_count c) :=
                                         (if strdup_ok then Some a else None)]\<rparr>
                 in if args c1 ! nat (arg_count c1) = None then (- 1, Some c1)
                    else (0, Some (c1\<lparr>arg_count := arg_count c1 + 1\<rparr>))))"

text \<open>
  \<^verbatim>\<open>strncpy(dst, src, n)\<close> on a destination buffer: the first \<open>n\<close> bytes become the source
  string, padded with terminators when it is shorter than \<open>n\<close>; no terminator is written
  when it is not; the bytes from \<open>n\<close> on are untouched.
\<close>

definition strncpy :: "char list \<Rightarrow> string \<Rightarrow> nat \<Rightarrow> char list" where
  "strncpy dst src n = take n (src @ replicate n NUL) @ drop n dst"

text \<open>The C string held by a buffer: its bytes up to the first terminator.\<close>

definition c_str :: "char list \<Rightarrow> string" where
  "c_str buf = takeWhile (\<lambda>c. c \<noteq> NUL) buf"

text \<open>
  \<^verbatim>\<open>rexos_launch_config_add_env\<close>: \<^verbatim>\<open>sizeof(key) - 1 = 255\<close> and \<^verbatim>\<open>sizeof(value) - 1 = 1023\<close>
  bytes are copied into entry \<^verbatim>\<open>env[env_count]\<close>.
\<close>

definition rexos_launch_config_add_env ::
  "rexos_launch_config_t option \<Rightarrow> string option \<Rightarrow> string option
     \<Rightarrow> int \<times> rexos_launch_config_t option" where
  "rexos_launch_config_add_env config k v =
     (case config of
        None \<Rightarrow> (- 1, config)
      | Some c \<Rightarrow>
          (case k of
             None \<Rightarrow> (- 1, config)
           | Some ks \<Rightarrow>
               (case v of
                  None \<Rightarrow> (- 1, config)
                | Some vs \<Rightarrow>
                    if env_count c \<ge> REXOS_MAX_ENV then (- 1, config)
                    else
                      let i = nat (env_count c);
                          e = env c ! i;
                          e1 = e\<lparr>env_key := strncpy (env_key e) ks (256 - 1)\<rparr>;
                          e2 = e1\<lparr>env_value := strncpy (env_value e1) vs (1024 - 1)\<rparr>
                      in (0, Some (c\<lparr>env := (env c)[i := e2],
                                      env_count := env_count c + 1\<rparr>)))))"

section \<open>Argument vector\<close>

text \<open>
  \<^verbatim>\<open>snprintf(slot_str, sizeof(slot_str), "%d", n)\<close> with \<^verbatim>\<open>char slot_str[8]\<close>: the decimal
  rendering of \<open>n\<close>, cut after \<open>sizeof(slot_str) - 1\<close> characters.
\<close>

definition digit_char :: "nat \<Rightarrow> char" where
  "digit_char d = ''0123456789'' ! d"

fun dec_nat :: "nat \<Rightarrow> string" where
  "dec_nat n = (if n < 10 then [digit_char n] else dec_nat (n div 10) @ [digit_char (n mod 10)])"

declare dec_nat.simps [simp del]

definition fmt_d :: "int \<Rightarrow> string" where
  "fmt_d i = (if i < 0 then CHR ''-'' # dec_nat (nat (- i)) else dec_nat (nat i))"

definition snprintf_d :: "nat \<Rightarrow> int \<Rightarrow> string" where
  "snprintf_d bufsize i = take (bufsize - 1) (fmt_d i)"

text \<open>
  The loop over the custom arguments of \<^verbatim>\<open>build_argv\<close>; \<open>argv\<close> is the vector filled so far
  and \<^verbatim>\<open>argc\<close> its length.  \<^verbatim>\<open>strdup\<close> is taken to succeed here, as the source does not
  test it in this function.
\<close>

function copy_custom_args ::
  "rexos_launch_config_t \<Rightarrow> int \<Rightarrow> int \<Rightarrow> string list \<Rightarrow> string list" where
  "copy_custom_args config max_args i argv =
     (if i < arg_count config \<and> int (length argv) < max_args - 2
      then copy_custom_args config max_args (i + 1) (argv @ [the (args config ! nat i)])
      else argv)"
  by pat_completeness auto
termination
  by (relation "measure (\<lambda>(config, max_args, i, argv). nat (arg_count config - i))") auto

declare copy_custom_args.simps [simp del]

text \<open>
  \<^verbatim>\<open>build_argv\<close>: \<open>None\<close> is the null pointer returned when \<^verbatim>\<open>calloc\<close> fails; otherwise the
  entries before the terminating null pointer.
\<close>

definition build_argv :: "bool \<Rightarrow> rexos_launch_config_t \<Rightarrow> string list option" where
  "build_argv calloc_ok config =
     (let max_args = 32 + arg_count config in
      if \<not> calloc_ok then None
      else
        let argv0 = [executable config];
            argv1 = argv0 @
              (if emu_type config = REXOS_EMU_RETROARCH then
                 (if core_path config \<noteq> [] then [''-L'', core_path config] else []) @
                 (if config_path config \<noteq> [] then [''--config'', config_path config] else []) @
                 (if fullscreen config then [''--fullscreen''] else []) @
                 (if verbose config then [''-v''] else []) @
                 (if load_state_slot config \<ge> 0
                  then [''-e'', snprintf_d 8 (load_state_slot config)] else [])
               else []);
            argv2 = copy_custom_args config max_args 0 argv1;
            argv3 = argv2 @ (if rom_path config \<noteq> [] then [rom_path config] else [])
        in Some argv3)"

section \<open>Process launch\<close>

text \<open>
  What the child does between \<^verbatim>\<open>fork\<close> and the image replacement
  (\<^verbatim>\<open>setup_child_process\<close> and the child branch of \<^verbatim>\<open>rexos_launch\<close>), as the sequence of
  its system calls.
\<close>

datatype child_action =
    Setpriority int
  | Sched_setaffinity int
  | Sched_setscheduler_fifo
  | Setenv string string
  | Setsid
  | Close_stdin
  | Open_dev_null
  | Execvp string "string list"

definition setup_child_process :: "rexos_launch_config_t \<Rightarrow> child_action list" where
  "setup_child_process config =
     (if nice_value config \<noteq> 0 then [Setpriority (nice_value config)] else []) @
     (if cpu_affinity config \<ge> 0 then [Sched_setaffinity (cpu_affinity config)] else []) @
     (if realtime_priority config then [Sched_setscheduler_fifo] else []) @
     map (\<lambda>e. Setenv (c_str (env_key e)) (c_str (env_value e)))
         (take (nat (env_count config)) (env config)) @
     [Setsid]"

text \<open>
  The operating system as \<^verbatim>\<open>rexos_launch\<close> sees it: whether \<^verbatim>\<open>access(path, X_OK)\<close> is 0,
  whether \<^verbatim>\<open>calloc\<close> succeeds, and the value \<^verbatim>\<open>fork\<close> returns in the calling process
  (negative: no process was created; positive: the identifier of the new child;
  0: the calling process is the new child).
\<close>

record launch_env =
  access_x_ok :: "string \<Rightarrow> bool"
  calloc_ok :: bool
  fork_ret :: int

text \<open>
  What a returning call did: the error code, the value stored through \<^verbatim>\<open>pid\<close> (\<open>None\<close>: no
  store was executed) and the child that \<^verbatim>\<open>fork\<close> created (\<open>None\<close>: none).
\<close>

record launch_return =
  ret :: rexos_error_t
  pid_store :: "int option"
  child_created :: "int option"

datatype launch_outcome =
    Returns launch_return
  | Becomes_child "child_action list"

text \<open>
  \<^verbatim>\<open>rexos_launch\<close>; \<open>pid_ptr\<close> says whether the \<^verbatim>\<open>pid\<close> pointer is non-null.  In the child
  branch the process never returns to the caller: it runs the setup, replaces standard
  input and calls \<^verbatim>\<open>execvp\<close> (and exits with 127 if that fails).
\<close>

definition rexos_launch ::
  "launch_env \<Rightarrow> rexos_launch_config_t option \<Rightarrow> bool \<Rightarrow> launch_outcome" where
  "rexos_launch os config pid_ptr =
     (case config of
        None \<Rightarrow> Returns \<lparr>ret = REXOS_ERR_INVALID_ARG, pid_store = None, child_created = None\<rparr>
      | Some c \<Rightarrow>
          if \<not> pid_ptr then
            Returns \<lparr>ret = REXOS_ERR_INVALID_ARG, pid_store = None, child_created = None\<rparr>
          else if executable c = [] then
            Returns \<lparr>ret = REXOS_ERR_INVALID_ARG, pid_store = None, child_created = None\<rparr>
          else if \<not> access_x_ok os (executable c) then
            Returns \<lparr>ret = REXOS_ERR_NOT_FOUND, pid_store = None, child_created = None\<rparr>
          else
            (case build_argv (calloc_ok os) c of
               None \<Rightarrow>
                 Returns \<lparr>ret = REXOS_ERR_MEMORY, pid_store = None, child_created = None\<rparr>
             | Some argv \<Rightarrow>
                 let child_pid = fork_ret os in
                 if child_pid < 0 then
                   Returns \<lparr>ret = REXOS_ERR_FORK_FAILED, pid_store = None,
                            child_created = None\<rparr>
                 else if child_pid = 0 then
                   Becomes_child (setup_child_process c @
                                  [Close_stdin, Open_dev_null, Execvp (hd argv) argv])
                 else
                   Returns \<lparr>ret = REXOS_OK, pid_store = Some child_pid,
                            child_created = Some child_pid\<rparr>))"

text \<open>The contents of a location after a call, from its contents before and the store.\<close>

definition cell_after :: "int \<Rightarrow> int option \<Rightarrow> int" where
  "cell_after before st = (case st of None \<Rightarrow> before | Some v \<Rightarrow> v)"

section \<open>Signals\<close>

definition ESRCH :: int where "ESRCH = 3"
definition EPERM :: int where "EPERM = 1"
definition SIGTERM :: int where "SIGTERM = 15"
definition SIGKILL :: int where "SIGKILL = 9"

text \<open>
  \<^verbatim>\<open>kill(pid, sig)\<close> is a parameter giving the returned value and \<^verbatim>\<open>errno\<close>.  The result
  carries the calls made to it, as (pid, sig) pairs.
\<close>

record signal_return =
  sig_ret :: rexos_error_t
  kill_calls :: "(int \<times> int) list"

definition rexos_signal :: "(int \<Rightarrow> int \<Rightarrow> int \<times> int) \<Rightarrow> int \<Rightarrow> int \<Rightarrow> signal_return" where
  "rexos_signal kill pid sig =
     (if pid \<le> 0 then \<lparr>sig_ret = REXOS_ERR_INVALID_ARG, kill_calls = []\<rparr>
      else
        let r = kill pid sig; errno = snd r in
        if fst r = 0 then \<lparr>sig_ret = REXOS_OK, kill_calls = [(pid, sig)]\<rparr>
        else if errno = ESRCH then \<lparr>sig_ret = REXOS_ERR_NOT_FOUND, kill_calls = [(pid, sig)]\<rparr>
        else if errno = EPERM then \<lparr>sig_ret = REXOS_ERR_PERMISSION, kill_calls = [(pid, sig)]\<rparr>
        else \<lparr>sig_ret = REXOS_ERR_IO, kill_calls = [(pid, sig)]\<rparr>)"

definition rexos_stop :: "(int \<Rightarrow> int \<Rightarrow> int \<times> int) \<Rightarrow> int \<Rightarrow> signal_return" where
  "rexos_stop kill pid = rexos_signal kill pid SIGTERM"

definition rexos_kill :: "(int \<Rightarrow> int \<Rightarrow> int \<times> int) \<Rightarrow> int \<Rightarrow> signal_return" where
  "rexos_kill kill pid = rexos_signal kill pid SIGKILL"

section \<open>Waiting for a process\<close>

text \<open>
  The status word that \<^verbatim>\<open>waitpid\<close> fills in, as far as the macros \<^verbatim>\<open>WIFEXITED\<close> and
  \<^verbatim>\<open>WEXITSTATUS\<close> read it: a normal exit with its code, or anything else.
\<close>

datatype wstatus = W_exited int | W_other

fun WIFEXITED :: "wstatus \<Rightarrow> bool" where
  "WIFEXITED (W_exited c) = True"
| "WIFEXITED W_other = False"

fun WEXITSTATUS :: "wstatus \<Rightarrow> int" where
  "WEXITSTATUS (W_exited c) = c"
| "WEXITSTATUS W_other = 0"

definition WNOHANG :: int where "WNOHANG = 1"

text \<open>
  \<^verbatim>\<open>waitpid\<close> is a parameter: the call number \<open>k\<close> (counted from 0 within one
  \<^verbatim>\<open>rexos_wait\<close>), the pid and the options give the returned value and the status; \<open>None\<close>
  is a blocking call that never returns.  What a returning \<^verbatim>\<open>rexos_wait\<close> did: the error
  code, the value stored through \<^verbatim>\<open>exit_code\<close> if any, and its system calls in order.
\<close>

type_synonym waitpid_fn = "nat \<Rightarrow> int \<Rightarrow> int \<Rightarrow> (int \<times> wstatus) option"

datatype wait_event = Ev_waitpid int int | Ev_usleep nat

record wait_return =
  w_ret :: rexos_error_t
  exit_code_store :: "int option"
  w_trace :: "wait_event list"

text \<open>
  What both places of the source do once \<^verbatim>\<open>waitpid\<close> returned the pid: store the exit code
  if the pointer is non-null and the process exited normally.
\<close>

definition store_exit_code :: "bool \<Rightarrow> wstatus \<Rightarrow> int option" where
  "store_exit_code exit_code_ptr status =
     (if exit_code_ptr \<and> WIFEXITED status then Some (WEXITSTATUS status) else None)"

text \<open>
  The polling loop of the branch \<^verbatim>\<open>timeout_ms > 0\<close>.  \<^verbatim>\<open>elapsed\<close> and \<^verbatim>\<open>timeout_ms\<close> are
  32-bit \<^verbatim>\<open>int\<close>s: the comparison is signed and \<^verbatim>\<open>elapsed += 10\<close> wraps.  The result \<open>None\<close>
  is a loop that never returns.
\<close>

partial_function (option) wait_poll ::
  "waitpid_fn \<Rightarrow> int \<Rightarrow> 32 word \<Rightarrow> bool \<Rightarrow> 32 word \<Rightarrow> nat \<Rightarrow> wait_event list
     \<Rightarrow> wait_return option" where
  "wait_poll waitpid pid timeout_ms exit_code_ptr elapsed k tr =
     (if sint elapsed < sint timeout_ms then
        (case waitpid k pid WNOHANG of
           None \<Rightarrow> None
         | Some r \<Rightarrow>
             if fst r = pid then
               Some \<lparr>w_ret = REXOS_OK,
                     exit_code_store = store_exit_code exit_code_ptr (snd r),
                     w_trace = tr @ [Ev_waitpid pid WNOHANG]\<rparr>
             else if fst r < 0 then
               Some \<lparr>w_ret = REXOS_ERR_IO, exit_code_store = None,
                     w_trace = tr @ [Ev_waitpid pid WNOHANG]\<rparr>
             else
               wait_poll waitpid pid timeout_ms exit_code_ptr (elapsed + 10) (k + 1)
                 (tr @ [Ev_waitpid pid WNOHANG, Ev_usleep 10000]))
      else Some \<lparr>w_ret = REXOS_ERR_TIMEOUT, exit_code_store = None, w_trace = tr\<rparr>)"

declare wait_poll.simps [code]

text \<open>
  The part of \<^verbatim>\<open>rexos_wait\<close> after the mode selection: one \<^verbatim>\<open>waitpid\<close> with the chosen
  options (\<^verbatim>\<open>WNOHANG\<close> for \<^verbatim>\<open>timeout_ms == 0\<close>, 0 for a negative timeout).
\<close>

definition wait_once :: "waitpid_fn \<Rightarrow> int \<Rightarrow> int \<Rightarrow> bool \<Rightarrow> wait_return option" where
  "wait_once waitpid pid options exit_code_ptr =
     (case waitpid 0 pid options of
        None \<Rightarrow> None
      | Some r \<Rightarrow>
          if fst r = pid then
            Some \<lparr>w_ret = REXOS_OK,
                  exit_code_store = store_exit_code exit_code_ptr (snd r),
                  w_trace = [Ev_waitpid pid options]\<rparr>
          else if fst r = 0 \<and> and options WNOHANG \<noteq> 0 then
            Some \<lparr>w_ret = REXOS_ERR_TIMEOUT, exit_code_store = None,
                  w_trace = [Ev_waitpid pid options]\<rparr>
          else
            Some \<lparr>w_ret = REXOS_ERR_IO, exit_code_store = None,
                  w_trace = [Ev_waitpid pid options]\<rparr>)"

text \<open>
  \<^verbatim>\<open>rexos_wait\<close>; \<open>exit_code_ptr\<close> says whether the \<^verbatim>\<open>exit_code\<close> pointer is non-null.
\<close>

definition rexos_wait ::
  "waitpid_fn \<Rightarrow> int \<Rightarrow> 32 word \<Rightarrow> bool \<Rightarrow> wait_return option" where
  "rexos_wait waitpid pid timeout_ms exit_code_ptr =
     (if pid \<le> 0 then
        Some \<lparr>w_ret = REXOS_ERR_INVALID_ARG, exit_code_store = None, w_trace = []\<rparr>
      else if sint timeout_ms = 0 then
        wait_once waitpid pid WNOHANG exit_code_ptr
      else if sint timeout_ms > 0 then
        wait_poll waitpid pid timeout_ms exit_code_ptr 0 0 []
      else
        wait_once waitpid pid 0 exit_code_ptr)"

section \<open>Process information\<close>

text \<open>
  \<^verbatim>\<open>rexos_process_info_t\<close>, and the fields that \<^verbatim>\<open>fscanf\<close> reads from
  \<^verbatim>\<open>/proc/<pid>/stat\<close> (64-bit \<^verbatim>\<open>long\<close>).
\<close>

record rexos_process_info_t =
  pi_pid :: int
  pi_state :: rexos_proc_state_t
  pi_exit_code :: int
  pi_start_time :: "64 word"
  pi_cpu_time_ms :: "64 word"
  pi_memory_kb :: "64 word"

record proc_stat_fields =
  st_state :: char
  st_utime :: "64 word"
  st_stime :: "64 word"
  st_vsize :: "64 word"
  st_rss :: "64 word"

text \<open>
  The process table as the call sees it: \<open>proc_stat pid\<close> is \<open>None\<close> when \<^verbatim>\<open>fopen\<close> of
  \<^verbatim>\<open>/proc/<pid>/stat\<close> fails and the scanned fields otherwise; the two \<^verbatim>\<open>sysconf\<close> values.
\<close>

record proc_env =
  proc_stat :: "int \<Rightarrow> proc_stat_fields option"
  clk_tck :: "64 word"
  page_size :: "64 word"

definition parse_state :: "char \<Rightarrow> rexos_proc_state_t" where
  "parse_state c =
     (if c = CHR ''R'' then REXOS_PROC_RUNNING
      else if c = CHR ''S'' then REXOS_PROC_SLEEPING
      else if c = CHR ''T'' then REXOS_PROC_STOPPED
      else if c = CHR ''Z'' then REXOS_PROC_ZOMBIE
      else REXOS_PROC_UNKNOWN)"

text \<open>
  \<^verbatim>\<open>rexos_get_process_info\<close>; \<open>info_ptr\<close> says whether the \<^verbatim>\<open>info\<close> pointer is non-null, and
  the second component is the structure written through it (\<open>None\<close>: nothing written).
  The CPU time is an unsigned 64-bit computation, the memory a signed one.
\<close>

definition rexos_get_process_info ::
  "proc_env \<Rightarrow> int \<Rightarrow> bool \<Rightarrow> rexos_error_t \<times> rexos_process_info_t option" where
  "rexos_get_process_info os pid info_ptr =
     (if pid \<le> 0 \<or> \<not> info_ptr then (REXOS_ERR_INVALID_ARG, None)
      else
        let info = \<lparr>pi_pid = pid, pi_state = REXOS_PROC_UNKNOWN, pi_exit_code = 0,
                    pi_start_time = 0, pi_cpu_time_ms = 0, pi_memory_kb = 0\<rparr>
        in
        (case proc_stat os pid of
           None \<Rightarrow> (REXOS_OK, Some (info\<lparr>pi_state := REXOS_PROC_DEAD\<rparr>))
         | Some f \<Rightarrow>
             (REXOS_OK,
              Some (info\<lparr>pi_state := parse_state (st_state f),
                         pi_cpu_time_ms := ((st_utime f + st_stime f) * 1000) div clk_tck os,
                         pi_memory_kb :=
                           word_of_int (sint (st_rss f * page_size os) sdiv 1024)\<rparr>))))"

section \<open>CPU usage\<close>

text \<open>
  The file-scope variables \<^verbatim>\<open>prev_user\<close> ... \<^verbatim>\<open>prev_softirq\<close> of \<^verbatim>\<open>performance.c\<close>
  (\<^verbatim>\<open>unsigned long long\<close>), each initialised to 0, and the seven counters that \<^verbatim>\<open>sscanf\<close>
  reads from the first line of \<^verbatim>\<open>/proc/stat\<close>.
\<close>

record cpu_counters =
  c_user :: "64 word"
  c_nice :: "64 word"
  c_system :: "64 word"
  c_idle :: "64 word"
  c_iowait :: "64 word"
  c_irq :: "64 word"
  c_softirq :: "64 word"

definition prev_initial :: cpu_counters where
  "prev_initial = \<lparr>c_user = 0, c_nice = 0, c_system = 0, c_idle = 0, c_iowait = 0,
                    c_irq = 0, c_softirq = 0\<rparr>"

text \<open>
  \<^verbatim>\<open>calculate_cpu_usage\<close>: the first argument is the line read from \<^verbatim>\<open>/proc/stat\<close> (\<open>None\<close>
  when \<^verbatim>\<open>fopen\<close> or \<^verbatim>\<open>fgets\<close> fails), the second the previous sample; the result is the
  returned value and the new previous sample.  The \<^verbatim>\<open>float\<close> result is given as the real
  number that the source's expression denotes, before rounding; the deltas and sums are
  64-bit unsigned and wrap.
\<close>

definition calculate_cpu_usage ::
  "cpu_counters option \<Rightarrow> cpu_counters \<Rightarrow> real \<times> cpu_counters" where
  "calculate_cpu_usage line prev =
     (case line of
        None \<Rightarrow> (0, prev)
      | Some cur \<Rightarrow>
          let d_user = c_user cur - c_user prev;
              d_nice = c_nice cur - c_nice prev;
              d_system = c_system cur - c_system prev;
              d_idle = c_idle cur - c_idle prev;
              d_iowait = c_iowait cur - c_iowait prev;
              d_irq = c_irq cur - c_irq prev;
              d_softirq = c_softirq cur - c_softirq prev;
              total = d_user + d_nice + d_system + d_idle + d_iowait + d_irq + d_softirq;
              busy = d_user + d_nice + d_system + d_irq + d_softirq
          in if total = 0 then (0, cur)
             else (real (unat busy) / real (unat total) * 100, cur))"

text \<open>
  \<^verbatim>\<open>rexos_get_perf_stats\<close>, as far as the CPU usage goes: \<^verbatim>\<open>stats->cpu_usage_percent\<close> is
  what \<^verbatim>\<open>calculate_cpu_usage\<close> returns.  \<open>stats_ptr\<close> says whether the pointer is non-null.
\<close>

definition rexos_get_perf_stats_cpu ::
  "cpu_counters option \<Rightarrow> cpu_counters \<Rightarrow> bool
     \<Rightarrow> rexos_error_t \<times> real option \<times> cpu_counters" where
  "rexos_get_perf_stats_cpu line prev stats_ptr =
     (if \<not> stats_ptr then (REXOS_ERR_INVALID_ARG, None, prev)
      else
        let r = calculate_cpu_usage line prev
        in (REXOS_OK, Some (fst r), snd r))"

section \<open>The file system behind \<^verbatim>\<open>access\<close>\<close>

text \<open>
  \<^verbatim>\<open>access(path, X_OK)\<close> as the operating system answers it: 0 when the path resolves and the
  caller may execute it (a regular file) or search it (a directory), and -1 otherwise.  A
  path resolves to an executable file when the entry is a regular file with that
  permission.  \<open>os_of_fs\<close> is the environment of \<^verbatim>\<open>rexos_launch\<close> over such a file system.
\<close>

datatype file_kind = Regular_file | Directory

record file_entry =
  f_kind :: file_kind
  f_exec :: bool

type_synonym file_system = "string \<Rightarrow> file_entry option"

definition access_X_OK :: "file_system \<Rightarrow> string \<Rightarrow> bool" where
  "access_X_OK fs path = (case fs path of None \<Rightarrow> False | Some e \<Rightarrow> f_exec e)"

definition executable_file :: "file_system \<Rightarrow> string \<Rightarrow> bool" where
  "executable_file fs path =
     (case fs path of None \<Rightarrow> False | Some e \<Rightarrow> f_kind e = Regular_file \<and> f_exec e)"

definition os_of_fs :: "file_system \<Rightarrow> bool \<Rightarrow> int \<Rightarrow> launch_env" where
  "os_of_fs fs mem f = \<lparr>access_x_ok = access_X_OK fs, calloc_ok = mem, fork_ret = f\<rparr>"

section \<open>Abbreviations and example inputs\<close>

text \<open>A call of \<^verbatim>\<open>rexos_launch\<close> that returns an error, stores nothing and created no child.\<close>

definition failed :: "rexos_error_t \<Rightarrow> launch_outcome" where
  "failed e = Returns \<lparr>ret = e, pid_store = None, child_created = None\<rparr>"

definition os_example :: "bool \<Rightarrow> bool \<Rightarrow> int \<Rightarrow> launch_env" where
  "os_example acc mem f = \<lparr>access_x_ok = (\<lambda>p. acc), calloc_ok = mem, fork_ret = f\<rparr>"

definition retroarch_config :: rexos_launch_config_t where
  "retroarch_config = initial_config\<lparr>executable := ''/bin/retroarch''\<rparr>"

text \<open>A configuration holding 63 arguments, and one holding 128 environment variables.\<close>

definition full_args_config :: rexos_launch_config_t where
  "full_args_config =
     initial_config\<lparr>args := replicate 63 (Some ''a'') @ [None], arg_count := 63\<rparr>"

definition full_env_config :: rexos_launch_config_t where
  "full_env_config = initial_config\<lparr>env_count := 128\<rparr>"

text \<open>
  A file system with an executable file, a file without execute permission and a
  searchable directory, and the initial configuration with a given executable path.
\<close>

definition example_fs :: file_system where
  "example_fs path =
     (if path = ''/bin/retroarch'' then Some \<lparr>f_kind = Regular_file, f_exec = True\<rparr>
      else if path = ''/etc/hosts'' then Some \<lparr>f_kind = Regular_file, f_exec = False\<rparr>
      else if path = ''/tmp'' then Some \<lparr>f_kind = Directory, f_exec = True\<rparr>
      else None)"

definition exe_config :: "string \<Rightarrow> rexos_launch_config_t" where
  "exe_config path = initial_config\<lparr>executable := path\<rparr>"

text \<open>
  The state of the environment buffers that \<^verbatim>\<open>rexos_launch_config_init\<close> leaves and
  \<^verbatim>\<open>rexos_launch_config_add_env\<close> keeps: 128 entries, a key buffer of 256 bytes and a value
  buffer of 1024 bytes, the last byte of each being the terminator.
\<close>

definition env_var_ok :: "rexos_env_var_t \<Rightarrow> bool" where
  "env_var_ok e \<longleftrightarrow>
     length (env_key e) = 256 \<and> env_key e ! 255 = NUL \<and>
     length (env_value e) = 1024 \<and> env_value e ! 1023 = NUL"

definition env_buffers_ok :: "rexos_launch_config_t \<Rightarrow> bool" where
  "env_buffers_ok c \<longleftrightarrow> length (env c) = 128 \<and> list_all env_var_ok (env c)"

text \<open>A key of 256 characters.\<close>

definition long_key :: string where
  "long_key = replicate 256 CHR ''k''"

text \<open>
  The sums that \<^verbatim>\<open>calculate_cpu_usage\<close> forms when the previous sample is all zero, and a
  first line of \<^verbatim>\<open>/proc/stat\<close> with one tick of user time and one idle tick.
\<close>

definition first_total :: "cpu_counters \<Rightarrow> 64 word" where
  "first_total cur = c_user cur + c_nice cur + c_system cur + c_idle cur + c_iowait cur +
                     c_irq cur + c_softirq cur"

definition first_busy :: "cpu_counters \<Rightarrow> 64 word" where
  "first_busy cur = c_user cur + c_nice cur + c_system cur + c_irq cur + c_softirq cur"

definition first_counters :: cpu_counters where
  "first_counters = \<lparr>c_user = 1, c_nice = 0, c_system = 0, c_idle = 1, c_iowait = 0,
                     c_irq = 0, c_softirq = 0\<rparr>"

text \<open>
  The arguments stored so far, in the order of their slots, and the shape of the argument
  array that \<^verbatim>\<open>rexos_launch_config_init\<close> and \<^verbatim>\<open>rexos_launch_config_add_arg\<close> maintain:
  64 slots, a count between 0 and 64, and no null pointer below the count.
\<close>

definition user_args :: "rexos_launch_config_t \<Rightarrow> string list" where
  "user_args c = map the (take (nat (arg_count c)) (args c))"

definition args_ok :: "rexos_launch_config_t \<Rightarrow> bool" where
  "args_ok c \<longleftrightarrow>
     0 \<le> arg_count c \<and> arg_count c \<le> 64 \<and> length (args c) = 64 \<and>
     list_all (\<lambda>a. a \<noteq> None) (take (nat (arg_count c)) (args c))"

text \<open>The RetroArch flags in the order in which \<^verbatim>\<open>build_argv\<close> emits them.\<close>

definition retroarch_flags :: "rexos_launch_config_t \<Rightarrow> string list" where
  "retroarch_flags c =
     (if core_path c \<noteq> [] then [''-L'', core_path c] else []) @
     (if config_path c \<noteq> [] then [''--config'', config_path c] else []) @
     (if fullscreen c then [''--fullscreen''] else []) @
     (if verbose c then [''-v''] else []) @
     (if load_state_slot c \<ge> 0 then [''-e'', snprintf_d 8 (load_state_slot c)] else [])"

text \<open>
  Two configurations: executable, core and ROM with the defaults otherwise, and a
  configuration asking for save-state slot 12345678.
\<close>

definition snes_config :: rexos_launch_config_t where
  "snes_config = initial_config\<lparr>executable := ''/bin/retroarch'', core_path := ''/cores/snes.so'',
     rom_path := ''/roms/game.sfc'', fullscreen := True\<rparr>"

definition slot_config :: rexos_launch_config_t where
  "slot_config = initial_config\<lparr>executable := ''/bin/retroarch'', load_state_slot := 12345678\<rparr>"

text \<open>
  A poll that finds the process still running (\<^verbatim>\<open>waitpid\<close> returns neither the pid nor a
  negative value), the system calls of \<open>m\<close> such polls, and the number of polls that a
  timeout allows: its tenth, rounded up.
\<close>

definition still_running :: "waitpid_fn \<Rightarrow> int \<Rightarrow> nat \<Rightarrow> bool" where
  "still_running waitpid pid k \<longleftrightarrow>
     (case waitpid k pid WNOHANG of
        None \<Rightarrow> False
      | Some r \<Rightarrow> fst r \<noteq> pid \<and> \<not> fst r < 0)"

definition poll_events :: "int \<Rightarrow> nat \<Rightarrow> wait_event list" where
  "poll_events pid m = concat (replicate m [Ev_waitpid pid WNOHANG, Ev_usleep 10000])"

definition max_polls :: "32 word \<Rightarrow> nat" where
  "max_polls timeout_ms = nat ((sint timeout_ms + 9) div 10)"

text \<open>
  A process that never terminates, a process that is found terminated with the given exit
  code from poll \<open>n\<close> on, and the largest \<^verbatim>\<open>int\<close>.
\<close>

definition never_exits :: waitpid_fn where
  "never_exits k pid options = Some (0, W_other)"

definition exits_at :: "nat \<Rightarrow> int \<Rightarrow> waitpid_fn" where
  "exits_at n code k pid options = (if k < n then Some (0, W_other) else Some (pid, W_exited code))"

definition INT_MAX :: "32 word" where
  "INT_MAX = 0x7FFFFFFF"

section \<open>Signals to non-positive handles\<close>

text \<open>
  Claim C9.  For every non-positive pid and every signal number, \<^verbatim>\<open>rexos_signal\<close> returns
  \<^verbatim>\<open>REXOS_ERR_INVALID_ARG\<close> and makes no call of \<^verbatim>\<open>kill\<close>; so do \<^verbatim>\<open>rexos_stop\<close> and
  \<^verbatim>\<open>rexos_kill\<close>.  In particular \<^verbatim>\<open>kill(-1, sig)\<close> is never issued.
\<close>

theorem rexos_signal_nonpositive_pid:
  "pid \<le> 0 \<Longrightarrow>
     rexos_signal kill pid sig = \<lparr>sig_ret = REXOS_ERR_INVALID_ARG, kill_calls = []\<rparr> \<and>
     rexos_stop kill pid = \<lparr>sig_ret = REXOS_ERR_INVALID_ARG, kill_calls = []\<rparr> \<and>
     rexos_kill kill pid = \<lparr>sig_ret = REXOS_ERR_INVALID_ARG, kill_calls = []\<rparr>"
  by (simp add: rexos_signal_def rexos_stop_def rexos_kill_def)

theorem rexos_signal_nonpositive_pid_witness:
  "(- 1 :: int) \<le> 0 \<and>
   rexos_signal (\<lambda>p s. (0, 0)) (- 1) 15 =
     \<lparr>sig_ret = REXOS_ERR_INVALID_ARG, kill_calls = []\<rparr> \<and>
   rexos_stop (\<lambda>p s. (0, 0)) (- 1) = \<lparr>sig_ret = REXOS_ERR_INVALID_ARG, kill_calls = []\<rparr> \<and>
   rexos_kill (\<lambda>p s. (0, 0)) (- 1) = \<lparr>sig_ret = REXOS_ERR_INVALID_ARG, kill_calls = []\<rparr>"
  using rexos_signal_nonpositive_pid [of "- 1" "\<lambda>p s. (0, 0)" 15] by simp

text \<open>Whatever the handle, a signal is only ever sent to a positive pid.\<close>

lemma kill_calls_positive:
  "(p, s) \<in> set (kill_calls (rexos_signal kill pid sig)) \<Longrightarrow> 0 < p"
  by (auto simp: rexos_signal_def Let_def split: if_splits)

section \<open>Launch: error returns and their effects\<close>

lemma build_argv_calloc_fails: "build_argv False c = None"
  by (simp add: build_argv_def)

lemma build_argv_calloc_ok: "build_argv True c \<noteq> None"
  by (simp add: build_argv_def Let_def)

lemma launch_null_config: "rexos_launch os None pid_ptr = failed REXOS_ERR_INVALID_ARG"
  by (simp add: rexos_launch_def failed_def)

lemma launch_null_pid: "rexos_launch os config False = failed REXOS_ERR_INVALID_ARG"
  by (simp add: rexos_launch_def failed_def split: option.splits)

lemma launch_empty_executable:
  "executable c = [] \<Longrightarrow> rexos_launch os (Some c) pid_ptr = failed REXOS_ERR_INVALID_ARG"
  by (simp add: rexos_launch_def failed_def)

lemma launch_not_found:
  "executable c \<noteq> [] \<Longrightarrow> \<not> access_x_ok os (executable c) \<Longrightarrow>
     rexos_launch os (Some c) True = failed REXOS_ERR_NOT_FOUND"
  by (simp add: rexos_launch_def failed_def)

lemma launch_memory:
  "executable c \<noteq> [] \<Longrightarrow> access_x_ok os (executable c) \<Longrightarrow> \<not> calloc_ok os \<Longrightarrow>
     rexos_launch os (Some c) True = failed REXOS_ERR_MEMORY"
  by (simp add: rexos_launch_def failed_def build_argv_calloc_fails)

lemma launch_after_calloc:
  "executable c \<noteq> [] \<Longrightarrow> access_x_ok os (executable c) \<Longrightarrow> calloc_ok os \<Longrightarrow>
     rexos_launch os (Some c) True =
       (if fork_ret os < 0 then failed REXOS_ERR_FORK_FAILED
        else if fork_ret os = 0 then
          Becomes_child (setup_child_process c @
            [Close_stdin, Open_dev_null,
             Execvp (hd (the (build_argv True c))) (the (build_argv True c))])
        else Returns \<lparr>ret = REXOS_OK, pid_store = Some (fork_ret os),
                      child_created = Some (fork_ret os)\<rparr>)"
  using build_argv_calloc_ok [of c]
  by (auto simp: rexos_launch_def failed_def Let_def)

text \<open>Every call ends in one of six ways.\<close>

lemma launch_cases:
  "rexos_launch os config pid_ptr = failed REXOS_ERR_INVALID_ARG \<or>
   rexos_launch os config pid_ptr = failed REXOS_ERR_NOT_FOUND \<or>
   rexos_launch os config pid_ptr = failed REXOS_ERR_MEMORY \<or>
   rexos_launch os config pid_ptr = failed REXOS_ERR_FORK_FAILED \<or>
   (\<exists>acts. rexos_launch os config pid_ptr = Becomes_child acts) \<or>
   (0 < fork_ret os \<and> rexos_launch os config pid_ptr =
      Returns \<lparr>ret = REXOS_OK, pid_store = Some (fork_ret os),
               child_created = Some (fork_ret os)\<rparr>)"
proof (cases config)
  case None
  then show ?thesis by (simp add: launch_null_config)
next
  case (Some c)
  show ?thesis
  proof (cases pid_ptr)
    case False
    then show ?thesis by (simp add: launch_null_pid)
  next
    case True
    show ?thesis
    proof (cases "executable c = []")
      case True
      then show ?thesis using Some by (simp add: launch_empty_executable)
    next
      case exe: False
      show ?thesis
      proof (cases "access_x_ok os (executable c)")
        case False
        then show ?thesis using Some True exe by (simp add: launch_not_found)
      next
        case acc: True
        show ?thesis
        proof (cases "calloc_ok os")
          case False
          then show ?thesis using Some True exe acc by (simp add: launch_memory)
        next
          case mem: True
          show ?thesis using Some True exe acc mem
            by (simp add: launch_after_calloc)
        qed
      qed
    qed
  qed
qed

lemma launch_error_effects:
  assumes "rexos_launch os config pid_ptr = Returns r" and "ret r \<noteq> REXOS_OK"
  shows "pid_store r = None \<and> child_created r = None"
  using launch_cases [of os config pid_ptr] assms
  by (auto simp: failed_def)

lemma launch_ok_effects:
  assumes "rexos_launch os config pid_ptr = Returns r" and "ret r = REXOS_OK"
  shows "0 < fork_ret os \<and> pid_store r = Some (fork_ret os) \<and>
         child_created r = Some (fork_ret os)"
  using launch_cases [of os config pid_ptr] assms
  by (auto simp: failed_def)

lemma launch_example_ok:
  "rexos_launch (os_example True True 4242) (Some retroarch_config) True =
     Returns \<lparr>ret = REXOS_OK, pid_store = Some 4242, child_created = Some 4242\<rparr>"
  by (simp add: launch_after_calloc os_example_def retroarch_config_def initial_config_def)

lemma launch_example_fork_failed:
  "rexos_launch (os_example True True (- 1)) (Some retroarch_config) True =
     Returns \<lparr>ret = REXOS_ERR_FORK_FAILED, pid_store = None, child_created = None\<rparr>"
  by (simp add: launch_after_calloc os_example_def retroarch_config_def initial_config_def
      failed_def)

lemma os_of_fs_simps:
  "access_x_ok (os_of_fs fs mem f) = access_X_OK fs"
  "calloc_ok (os_of_fs fs mem f) = mem"
  "fork_ret (os_of_fs fs mem f) = f"
  by (simp_all add: os_of_fs_def)

lemma executable_exe_config: "executable (exe_config path) = path"
  by (simp add: exe_config_def)

lemma example_fs_access:
  "access_X_OK example_fs ''/bin/retroarch''" "access_X_OK example_fs ''/tmp''"
  "\<not> access_X_OK example_fs ''/etc/hosts''" "\<not> access_X_OK example_fs ''/missing''"
  "example_fs ''/missing'' = None"
  "executable_file example_fs ''/bin/retroarch''" "\<not> executable_file example_fs ''/tmp''"
  by (simp_all add: access_X_OK_def executable_file_def example_fs_def)

lemma launch_succeeds:
  "executable c \<noteq> [] \<Longrightarrow> access_x_ok os (executable c) \<Longrightarrow> calloc_ok os \<Longrightarrow>
     0 < fork_ret os \<Longrightarrow>
     rexos_launch os (Some c) True =
       Returns \<lparr>ret = REXOS_OK, pid_store = Some (fork_ret os),
                child_created = Some (fork_ret os)\<rparr>"
  by (simp add: launch_after_calloc)

text \<open>
  Claim C3 as stated fails: \<^verbatim>\<open>/tmp\<close> is a searchable directory, not an executable file, yet
  \<^verbatim>\<open>access("/tmp", X_OK)\<close> is 0, so \<^verbatim>\<open>rexos_launch\<close> does not return
  \<^verbatim>\<open>REXOS_ERR_NOT_FOUND\<close>: it forks, creates a child and returns \<^verbatim>\<open>REXOS_OK\<close>.
\<close>

theorem launch_searchable_directory_counterexample:
  "\<not> executable_file example_fs ''/tmp'' \<and>
   rexos_launch (os_of_fs example_fs True 4242) (Some (exe_config ''/tmp'')) True =
     Returns \<lparr>ret = REXOS_OK, pid_store = Some 4242, child_created = Some 4242\<rparr>"
  using launch_succeeds [of "exe_config ''/tmp''" "os_of_fs example_fs True 4242"]
  by (simp add: os_of_fs_simps executable_exe_config example_fs_access)

text \<open>
  Claim C3, amended.  \<^verbatim>\<open>rexos_launch\<close> returns \<^verbatim>\<open>REXOS_ERR_INVALID_ARG\<close> when the
  configuration or the pid pointer is null or the executable path is empty.  Given both
  pointers and a non-empty path, it returns \<^verbatim>\<open>REXOS_ERR_NOT_FOUND\<close> when
  \<^verbatim>\<open>access(executable, X_OK)\<close> fails, that is when the path does not resolve or the caller has
  no execute or search permission on it (no such path is an executable file);
  \<^verbatim>\<open>REXOS_ERR_MEMORY\<close> when that check passes and the \<^verbatim>\<open>calloc\<close> of the argument vector fails;
  \<^verbatim>\<open>REXOS_ERR_FORK_FAILED\<close> when both pass and \<^verbatim>\<open>fork\<close> fails.  A path that passes the check
  is launched whatever it resolves to: the parent returns \<^verbatim>\<open>REXOS_OK\<close> with the child's pid.
  Whenever the call returns an error, no child process was created.
\<close>

theorem rexos_launch_failures:
  "rexos_launch os None pid_ptr = failed REXOS_ERR_INVALID_ARG \<and>
   rexos_launch os config False = failed REXOS_ERR_INVALID_ARG \<and>
   (executable c = [] \<longrightarrow>
      rexos_launch os (Some c) pid_ptr = failed REXOS_ERR_INVALID_ARG) \<and>
   (executable c \<noteq> [] \<and> \<not> access_X_OK fs (executable c) \<longrightarrow>
      rexos_launch (os_of_fs fs mem f) (Some c) True = failed REXOS_ERR_NOT_FOUND) \<and>
   (executable c \<noteq> [] \<and> access_X_OK fs (executable c) \<and> \<not> mem \<longrightarrow>
      rexos_launch (os_of_fs fs mem f) (Some c) True = failed REXOS_ERR_MEMORY) \<and>
   (executable c \<noteq> [] \<and> access_X_OK fs (executable c) \<and> mem \<and> f < 0 \<longrightarrow>
      rexos_launch (os_of_fs fs mem f) (Some c) True = failed REXOS_ERR_FORK_FAILED) \<and>
   (executable c \<noteq> [] \<and> access_X_OK fs (executable c) \<and> mem \<and> 0 < f \<longrightarrow>
      rexos_launch (os_of_fs fs mem f) (Some c) True =
        Returns \<lparr>ret = REXOS_OK, pid_store = Some f, child_created = Some f\<rparr>) \<and>
   (\<not> access_X_OK fs p \<longleftrightarrow> fs p = None \<or> (\<exists>e. fs p = Some e \<and> \<not> f_exec e)) \<and>
   (\<not> access_X_OK fs p \<longrightarrow> \<not> executable_file fs p) \<and>
   (\<forall>r. rexos_launch os config pid_ptr = Returns r \<and> ret r \<noteq> REXOS_OK \<longrightarrow>
      child_created r = None)"
proof -
  let ?os = "os_of_fs fs mem f"
  have nf: "executable c \<noteq> [] \<and> \<not> access_X_OK fs (executable c) \<longrightarrow>
      rexos_launch ?os (Some c) True = failed REXOS_ERR_NOT_FOUND"
    using launch_not_found [of c ?os] by (simp add: os_of_fs_simps)
  have me: "executable c \<noteq> [] \<and> access_X_OK fs (executable c) \<and> \<not> mem \<longrightarrow>
      rexos_launch ?os (Some c) True = failed REXOS_ERR_MEMORY"
    using launch_memory [of c ?os] by (simp add: os_of_fs_simps)
  have fk: "executable c \<noteq> [] \<and> access_X_OK fs (executable c) \<and> mem \<and> f < 0 \<longrightarrow>
      rexos_launch ?os (Some c) True = failed REXOS_ERR_FORK_FAILED"
    using launch_after_calloc [of c ?os] by (simp add: os_of_fs_simps)
  have ok: "executable c \<noteq> [] \<and> access_X_OK fs (executable c) \<and> mem \<and> 0 < f \<longrightarrow>
      rexos_launch ?os (Some c) True =
        Returns \<lparr>ret = REXOS_OK, pid_store = Some f, child_created = Some f\<rparr>"
    using launch_succeeds [of c ?os] by (simp add: os_of_fs_simps)
  have acc: "\<not> access_X_OK fs p \<longleftrightarrow> fs p = None \<or> (\<exists>e. fs p = Some e \<and> \<not> f_exec e)"
    by (simp add: access_X_OK_def split: option.splits)
  have exe: "\<not> access_X_OK fs p \<longrightarrow> \<not> executable_file fs p"
    by (simp add: access_X_OK_def executable_file_def split: option.splits)
  have nochild: "\<forall>r. rexos_launch os config pid_ptr = Returns r \<and> ret r \<noteq> REXOS_OK \<longrightarrow>
      child_created r = None"
    using launch_error_effects [of os config pid_ptr] by simp
  have inv: "rexos_launch os None pid_ptr = failed REXOS_ERR_INVALID_ARG"
    "rexos_launch os config False = failed REXOS_ERR_INVALID_ARG"
    "executable c = [] \<longrightarrow> rexos_launch os (Some c) pid_ptr = failed REXOS_ERR_INVALID_ARG"
    by (simp_all add: launch_null_config launch_null_pid launch_empty_executable)
  from inv nf me fk ok acc exe nochild show ?thesis by blast
qed

theorem rexos_launch_failures_witness:
  "rexos_launch (os_of_fs example_fs True 4242) (Some initial_config) True =
     failed REXOS_ERR_INVALID_ARG \<and>
   rexos_launch (os_of_fs example_fs True 4242) (Some (exe_config ''/missing'')) True =
     failed REXOS_ERR_NOT_FOUND \<and>
   rexos_launch (os_of_fs example_fs True 4242) (Some (exe_config ''/etc/hosts'')) True =
     failed REXOS_ERR_NOT_FOUND \<and>
   rexos_launch (os_of_fs example_fs False 4242) (Some (exe_config ''/bin/retroarch'')) True =
     failed REXOS_ERR_MEMORY \<and>
   rexos_launch (os_of_fs example_fs True (- 1)) (Some (exe_config ''/bin/retroarch'')) True =
     failed REXOS_ERR_FORK_FAILED \<and>
   rexos_launch (os_of_fs example_fs True 4242) (Some (exe_config ''/bin/retroarch'')) True =
     Returns \<lparr>ret = REXOS_OK, pid_store = Some 4242, child_created = Some 4242\<rparr> \<and>
   example_fs ''/missing'' = None \<and> \<not> executable_file example_fs ''/missing''"
  using
    rexos_launch_failures [where os = "os_of_fs example_fs True 4242" and pid_ptr = True
      and config = None and c = "initial_config" and fs = example_fs and mem = True
      and f = "4242" and p = "''/missing''"]
    rexos_launch_failures [where os = "os_of_fs example_fs True 4242" and pid_ptr = True
      and config = None and c = "exe_config ''/missing''" and fs = example_fs and mem = True
      and f = "4242" and p = "''/missing''"]
    rexos_launch_failures [where os = "os_of_fs example_fs True 4242" and pid_ptr = True
      and config = None and c = "exe_config ''/etc/hosts''" and fs = example_fs and mem = True
      and f = "4242" and p = "''/missing''"]
    rexos_launch_failures [where os = "os_of_fs example_fs True 4242" and pid_ptr = True
      and config = None and c = "exe_config ''/bin/retroarch''" and fs = example_fs and mem = False
      and f = "4242" and p = "''/missing''"]
    rexos_launch_failures [where os = "os_of_fs example_fs True 4242" and pid_ptr = True
      and config = None and c = "exe_config ''/bin/retroarch''" and fs = example_fs and mem = True
      and f = "- 1" and p = "''/missing''"]
    rexos_launch_failures [where os = "os_of_fs example_fs True 4242" and pid_ptr = True
      and config = None and c = "exe_config ''/bin/retroarch''" and fs = example_fs and mem = True
      and f = "4242" and p = "''/missing''"]
  by (simp add: executable_exe_config example_fs_access initial_config_def)

text \<open>
  Claim C10.  A returning \<^verbatim>\<open>rexos_launch\<close> executes the store \<^verbatim>\<open>*pid = child_pid\<close> if and only
  if it returns \<^verbatim>\<open>REXOS_OK\<close>: on every error the location keeps the value it had before the
  call, and on success it holds the identifier that \<^verbatim>\<open>fork\<close> returned.
\<close>

theorem rexos_launch_pid_store:
  "rexos_launch os config pid_ptr = Returns r \<Longrightarrow>
     (pid_store r \<noteq> None \<longleftrightarrow> ret r = REXOS_OK) \<and>
     (ret r \<noteq> REXOS_OK \<longrightarrow> cell_after before (pid_store r) = before) \<and>
     (ret r = REXOS_OK \<longrightarrow> cell_after before (pid_store r) = fork_ret os)"
  using launch_error_effects [of os config pid_ptr r] launch_ok_effects [of os config pid_ptr r]
  by (cases "ret r = REXOS_OK") (auto simp: cell_after_def)

theorem rexos_launch_pid_store_witness:
  "rexos_launch (os_example True True 4242) (Some retroarch_config) True =
     Returns \<lparr>ret = REXOS_OK, pid_store = Some 4242, child_created = Some 4242\<rparr> \<and>
   cell_after 7 (Some 4242) = 4242 \<and>
   rexos_launch (os_example True True (- 1)) (Some retroarch_config) True =
     Returns \<lparr>ret = REXOS_ERR_FORK_FAILED, pid_store = None, child_created = None\<rparr> \<and>
   cell_after 7 None = 7"
  using rexos_launch_pid_store [OF launch_example_ok, of 7]
    rexos_launch_pid_store [OF launch_example_fork_failed, of 7]
  by (simp add: launch_example_ok launch_example_fork_failed cell_after_def)

section \<open>Process information for an absent entry\<close>

text \<open>
  Claim C4.  For every positive pid whose \<^verbatim>\<open>/proc/<pid>/stat\<close> cannot be opened,
  \<^verbatim>\<open>rexos_get_process_info\<close> (given a structure to fill) returns \<^verbatim>\<open>REXOS_OK\<close> and reports the
  state \<^verbatim>\<open>REXOS_PROC_DEAD\<close> with exit code 0 and memory 0.
\<close>

theorem get_process_info_absent:
  "0 < pid \<Longrightarrow> proc_stat os pid = None \<Longrightarrow>
     rexos_get_process_info os pid True =
       (REXOS_OK, Some \<lparr>pi_pid = pid, pi_state = REXOS_PROC_DEAD, pi_exit_code = 0,
                         pi_start_time = 0, pi_cpu_time_ms = 0, pi_memory_kb = 0\<rparr>)"
  by (simp add: rexos_get_process_info_def)

theorem get_process_info_absent_witness:
  "(0::int) < 99999 \<and>
   rexos_get_process_info \<lparr>proc_stat = (\<lambda>p. None), clk_tck = 100, page_size = 4096\<rparr> 99999 True =
       (REXOS_OK, Some \<lparr>pi_pid = 99999, pi_state = REXOS_PROC_DEAD, pi_exit_code = 0,
                         pi_start_time = 0, pi_cpu_time_ms = 0, pi_memory_kb = 0\<rparr>)"
  using get_process_info_absent
    [of 99999 "\<lparr>proc_stat = (\<lambda>p. None), clk_tck = 100, page_size = 4096\<rparr>"]
  by simp

section \<open>Capacity of the argument and environment arrays\<close>

lemma initial_config_counts:
  "arg_count initial_config = 0" "env_count initial_config = 0"
  "length (args initial_config) = 64" "length (env initial_config) = 128"
  by (simp_all add: initial_config_def)

lemma full_config_counts:
  "arg_count full_args_config = 63" "env_count full_env_config = 128"
  by (simp_all add: full_args_config_def full_env_config_def)

lemma add_arg_null_config: "rexos_launch_config_add_arg None arg ok = (- 1, None)"
  by (simp add: rexos_launch_config_add_arg_def)

lemma add_arg_null_arg: "rexos_launch_config_add_arg config None ok = (- 1, config)"
  by (simp add: rexos_launch_config_add_arg_def split: option.splits)

lemma add_arg_full:
  "63 \<le> arg_count c \<Longrightarrow> rexos_launch_config_add_arg (Some c) arg ok = (- 1, Some c)"
  by (simp add: rexos_launch_config_add_arg_def REXOS_MAX_ARGS_def split: option.splits)

lemma add_arg_strdup_fails:
  "arg_count c < 63 \<Longrightarrow> 0 \<le> arg_count c \<Longrightarrow> length (args c) = 64 \<Longrightarrow>
     rexos_launch_config_add_arg (Some c) (Some a) False =
       (- 1, Some (c\<lparr>args := (args c)[nat (arg_count c) := None]\<rparr>))"
  by (simp add: rexos_launch_config_add_arg_def REXOS_MAX_ARGS_def Let_def)

lemma add_arg_accepts:
  "arg_count c < 63 \<Longrightarrow> 0 \<le> arg_count c \<Longrightarrow> length (args c) = 64 \<Longrightarrow>
     rexos_launch_config_add_arg (Some c) (Some a) True =
       (0, Some (c\<lparr>args := (args c)[nat (arg_count c) := Some a],
                   arg_count := arg_count c + 1\<rparr>))"
  by (simp add: rexos_launch_config_add_arg_def REXOS_MAX_ARGS_def Let_def)

lemma add_arg_frame:
  assumes "rexos_launch_config_add_arg (Some c) arg ok = (r, Some c')" and "r \<noteq> 0"
  shows "arg_count c' = arg_count c \<and> env_count c' = env_count c \<and> env c' = env c \<and>
         take (nat (arg_count c)) (args c') = take (nat (arg_count c)) (args c)"
  using assms
  by (auto simp: rexos_launch_config_add_arg_def Let_def split: option.splits if_splits)

lemma add_env_null:
  "config = None \<or> k = None \<or> v = None \<Longrightarrow>
     rexos_launch_config_add_env config k v = (- 1, config)"
  by (auto simp: rexos_launch_config_add_env_def split: option.splits)

lemma add_env_full:
  "128 \<le> env_count c \<Longrightarrow> rexos_launch_config_add_env (Some c) k v = (- 1, Some c)"
  by (simp add: rexos_launch_config_add_env_def REXOS_MAX_ENV_def split: option.splits)

lemma add_env_accepts:
  "env_count c < 128 \<Longrightarrow>
     rexos_launch_config_add_env (Some c) (Some k) (Some v) =
       (0, Some (c\<lparr>env := (env c)[nat (env_count c) :=
                    (env c ! nat (env_count c))
                      \<lparr>env_key := strncpy (env_key (env c ! nat (env_count c))) k 255,
                       env_value := strncpy (env_value (env c ! nat (env_count c))) v 1023\<rparr>],
                   env_count := env_count c + 1\<rparr>))"
  by (simp add: rexos_launch_config_add_env_def REXOS_MAX_ENV_def Let_def)

lemma add_env_frame:
  assumes "fst (rexos_launch_config_add_env config k v) \<noteq> 0"
  shows "rexos_launch_config_add_env config k v = (- 1, config)"
  using assms
  by (auto simp: rexos_launch_config_add_env_def Let_def split: option.splits if_splits)

text \<open>
  Claim C5 as stated fails: with 63 arguments stored, one short of 64, the insertion is
  already rejected (the guard is \<^verbatim>\<open>arg_count >= REXOS_MAX_ARGS - 1\<close>).
\<close>

theorem add_arg_rejects_at_63_counterexample:
  "rexos_launch_config_add_arg (Some full_args_config) (Some ''b'') True =
     (- 1, Some full_args_config) \<and> arg_count full_args_config = 63"
  by (simp add: add_arg_full full_args_config_def)

text \<open>
  Claim C5, amended.  With a configuration, a value and a successful \<^verbatim>\<open>strdup\<close>,
  \<^verbatim>\<open>rexos_launch_config_add_arg\<close> returns -1 exactly when 63 arguments are stored;
  \<^verbatim>\<open>rexos_launch_config_add_env\<close> with a configuration, a key and a value returns -1 exactly when
  128 variables are stored.  A capacity rejection leaves the configuration as it was; every
  rejection by \<^verbatim>\<open>add_arg\<close> leaves the counts, the environment and the arguments stored so far
  as they were, and every rejection by \<^verbatim>\<open>add_env\<close> leaves the whole configuration unchanged.
\<close>

theorem add_capacity:
  "(0 \<le> arg_count c \<and> length (args c) = 64 \<longrightarrow>
      (fst (rexos_launch_config_add_arg (Some c) (Some a) True) = - 1 \<longleftrightarrow> 63 \<le> arg_count c)) \<and>
   (fst (rexos_launch_config_add_env (Some c) (Some k) (Some v)) = - 1 \<longleftrightarrow> 128 \<le> env_count c) \<and>
   (63 \<le> arg_count c \<longrightarrow> rexos_launch_config_add_arg (Some c) arg ok = (- 1, Some c)) \<and>
   (128 \<le> env_count c \<longrightarrow> rexos_launch_config_add_env (Some c) ko vo = (- 1, Some c)) \<and>
   (\<forall>c'. rexos_launch_config_add_arg (Some c) arg ok = (- 1, Some c') \<longrightarrow>
      arg_count c' = arg_count c \<and> env_count c' = env_count c \<and> env c' = env c \<and>
      take (nat (arg_count c)) (args c') = take (nat (arg_count c)) (args c)) \<and>
   (fst (rexos_launch_config_add_env config ko vo) = - 1 \<longrightarrow>
      snd (rexos_launch_config_add_env config ko vo) = config)"
proof -
  have a: "0 \<le> arg_count c \<and> length (args c) = 64 \<longrightarrow>
      (fst (rexos_launch_config_add_arg (Some c) (Some a) True) = - 1 \<longleftrightarrow> 63 \<le> arg_count c)"
    by (cases "63 \<le> arg_count c") (simp_all add: add_arg_full add_arg_accepts)
  have b: "fst (rexos_launch_config_add_env (Some c) (Some k) (Some v)) = - 1
      \<longleftrightarrow> 128 \<le> env_count c"
    by (cases "128 \<le> env_count c") (simp_all add: add_env_full add_env_accepts)
  have c: "\<forall>c'. rexos_launch_config_add_arg (Some c) arg ok = (- 1, Some c') \<longrightarrow>
      arg_count c' = arg_count c \<and> env_count c' = env_count c \<and> env c' = env c \<and>
      take (nat (arg_count c)) (args c') = take (nat (arg_count c)) (args c)"
    using add_arg_frame [of c arg ok "- 1"] by simp
  have d: "fst (rexos_launch_config_add_env config ko vo) = - 1 \<longrightarrow>
      snd (rexos_launch_config_add_env config ko vo) = config"
    using add_env_frame [of config ko vo] by auto
  have e: "63 \<le> arg_count c \<longrightarrow>
      rexos_launch_config_add_arg (Some c) arg ok = (- 1, Some c)"
    by (simp add: add_arg_full)
  have f: "128 \<le> env_count c \<longrightarrow>
      rexos_launch_config_add_env (Some c) ko vo = (- 1, Some c)"
    by (simp add: add_env_full)
  from a b e f c d show ?thesis by blast
qed

theorem add_capacity_witness:
  "fst (rexos_launch_config_add_arg (Some initial_config) (Some ''x'') True) \<noteq> - 1 \<and>
   rexos_launch_config_add_arg (Some full_args_config) (Some ''x'') True =
     (- 1, Some full_args_config) \<and>
   fst (rexos_launch_config_add_env (Some initial_config) (Some ''K'') (Some ''V'')) \<noteq> - 1 \<and>
   rexos_launch_config_add_env (Some full_env_config) (Some ''K'') (Some ''V'') =
     (- 1, Some full_env_config)"
  using add_capacity [of initial_config "''x''" "''K''" "''V''" "Some ''x''" True
      "Some ''K''" "Some ''V''" "Some initial_config"]
    add_capacity [of full_args_config "''x''" "''K''" "''V''" "Some ''x''" True
      "Some ''K''" "Some ''V''" "Some initial_config"]
    add_capacity [of full_env_config "''x''" "''K''" "''V''" "Some ''x''" True
      "Some ''K''" "Some ''V''" "Some initial_config"]
  by (simp add: initial_config_counts full_config_counts)

section \<open>Null and empty argument values\<close>

text \<open>
  Claim C7 as stated fails: an empty value is accepted.  On the initial configuration
  \<^verbatim>\<open>rexos_launch_config_add_arg(config, "")\<close> returns 0, stores the empty string in slot 0 and
  raises the count to 1.
\<close>

theorem add_arg_accepts_empty_counterexample:
  "rexos_launch_config_add_arg (Some initial_config) (Some []) True =
     (0, Some (initial_config\<lparr>args := (args initial_config)[0 := Some []], arg_count := 1\<rparr>))"
  using add_arg_accepts [of initial_config "[]"] by (simp add: initial_config_counts)

text \<open>
  Claim C7, amended.  For every configuration, \<^verbatim>\<open>rexos_launch_config_add_arg\<close> returns -1
  (the value of \<^verbatim>\<open>REXOS_ERR_INVALID_ARG\<close>) whenever the value is null, leaving the
  configuration unchanged; an empty value is appended like any other while fewer than 63
  arguments are stored.
\<close>

theorem add_arg_null_value:
  "rexos_launch_config_add_arg config None ok = (- 1, config) \<and>
   (0 \<le> arg_count c \<and> arg_count c < 63 \<and> length (args c) = 64 \<longrightarrow>
      rexos_launch_config_add_arg (Some c) (Some []) True =
        (0, Some (c\<lparr>args := (args c)[nat (arg_count c) := Some []],
                    arg_count := arg_count c + 1\<rparr>)))"
  by (simp add: add_arg_null_arg add_arg_accepts)

theorem add_arg_null_value_witness:
  "rexos_launch_config_add_arg (Some initial_config) None True = (- 1, Some initial_config) \<and>
   rexos_launch_config_add_arg (Some initial_config) (Some []) True =
     (0, Some (initial_config\<lparr>args := (args initial_config)[0 := Some []], arg_count := 1\<rparr>))"
  using add_arg_null_value [of "Some initial_config" True initial_config]
  by (simp add: initial_config_counts)

section \<open>Truncation of environment keys and values\<close>

lemma c_str_append_NUL: "NUL \<notin> set xs \<Longrightarrow> c_str (xs @ NUL # ys) = xs"
  by (induction xs) (auto simp: c_str_def)

lemma c_str_strncpy:
  assumes "NUL \<notin> set src" and "n < length dst" and "dst ! n = NUL"
  shows "c_str (strncpy dst src n) = take n src"
proof (cases "n \<le> length src")
  case True
  have "drop n dst = NUL # drop (Suc n) dst"
    using assms(2,3) by (metis Cons_nth_drop_Suc)
  moreover have "NUL \<notin> set (take n src)"
    using assms(1) by (meson in_set_takeD)
  ultimately show ?thesis
    using True by (simp add: strncpy_def c_str_append_NUL)
next
  case False
  then obtain m where m: "n - length src = Suc m"
    by (metis Suc_diff_Suc not_le_imp_less zero_less_diff diff_is_0_eq' not0_implies_Suc nat_le_linear)
  have "strncpy dst src n = src @ NUL # (replicate m NUL @ drop n dst)"
    using False m by (simp add: strncpy_def)
  then show ?thesis
    using False assms(1) by (simp add: c_str_append_NUL)
qed

lemma length_strncpy: "n \<le> length dst \<Longrightarrow> length (strncpy dst src n) = length dst"
  by (simp add: strncpy_def)

lemma strncpy_nth_beyond:
  assumes "n \<le> i" and "n \<le> length dst"
  shows "strncpy dst src n ! i = dst ! i"
proof -
  have len: "length (take n (src @ replicate n NUL)) = n" by simp
  have "strncpy dst src n ! i = drop n dst ! (i - n)"
    unfolding strncpy_def using len assms(1) by (metis nth_append not_less)
  then show ?thesis using assms by simp
qed

lemma env_var_ok_strncpy:
  "env_var_ok e \<Longrightarrow>
     env_var_ok (e\<lparr>env_key := strncpy (env_key e) k 255,
                   env_value := strncpy (env_value e) v 1023\<rparr>)"
  by (simp add: env_var_ok_def length_strncpy strncpy_nth_beyond)

lemma env_buffers_ok_initial: "env_buffers_ok initial_config"
  by (simp add: env_buffers_ok_def initial_config_def env_var_ok_def zeroed_env_var_def
      list_all_length)

lemma env_buffers_ok_nth:
  "env_buffers_ok c \<Longrightarrow> i < 128 \<Longrightarrow> env_var_ok (env c ! i)"
  by (simp add: env_buffers_ok_def list_all_length)

lemma no_NUL_long_key: "NUL \<notin> set long_key"
  by (simp add: long_key_def NUL_def)

lemma no_NUL_example_value: "NUL \<notin> set ''v''"
  by (simp add: NUL_def)

text \<open>
  Claim C6 as stated fails: of a key of 256 characters only 255 are stored, so the stored
  key is not the key cut to 256 characters.
\<close>

theorem add_env_key_256_counterexample:
  "c_str (env_key (env (the (snd (rexos_launch_config_add_env (Some initial_config)
       (Some long_key) (Some ''v'')))) ! 0)) \<noteq> take 256 long_key"
proof -
  let ?e = "env initial_config ! 0"
  have e: "?e = zeroed_env_var" by (simp add: initial_config_def)
  have "rexos_launch_config_add_env (Some initial_config) (Some long_key) (Some ''v'') =
      (0, Some (initial_config\<lparr>env := (env initial_config)[0 :=
                  ?e\<lparr>env_key := strncpy (env_key ?e) long_key 255,
                     env_value := strncpy (env_value ?e) ''v'' 1023\<rparr>],
                env_count := env_count initial_config + 1\<rparr>))"
    using add_env_accepts [of initial_config long_key "''v''"]
    by (simp add: initial_config_counts)
  then have "env_key (env (the (snd (rexos_launch_config_add_env (Some initial_config)
       (Some long_key) (Some ''v'')))) ! 0) = strncpy (env_key ?e) long_key 255"
    by (simp add: initial_config_counts)
  moreover have "c_str (strncpy (env_key ?e) long_key 255) = take 255 long_key"
    using no_NUL_long_key by (intro c_str_strncpy) (simp_all add: e zeroed_env_var_def)
  moreover have "length (take 255 long_key) \<noteq> length (take 256 long_key)"
    by (simp add: long_key_def)
  ultimately show ?thesis by metis
qed

text \<open>
  Claim C6, amended.  For every key and value accepted by \<^verbatim>\<open>rexos_launch_config_add_env\<close>
  (fewer than 128 variables stored, key and value non-null strings, environment buffers as
  \<^verbatim>\<open>rexos_launch_config_init\<close> and earlier calls leave them), the call returns 0, the stored
  key is the input key cut to 255 characters and the stored value is the input value cut to
  1023 characters (the buffers of 256 and 1024 bytes keep their last byte for the
  terminator), the count grows by one and the buffers stay well-formed.
\<close>

theorem add_env_truncation:
  assumes ok: "env_buffers_ok c" and lo: "0 \<le> env_count c" and hi: "env_count c < 128"
    and k: "NUL \<notin> set k" and v: "NUL \<notin> set v"
  shows "\<exists>c'. rexos_launch_config_add_env (Some c) (Some k) (Some v) = (0, Some c') \<and>
           c_str (env_key (env c' ! nat (env_count c))) = take 255 k \<and>
           c_str (env_value (env c' ! nat (env_count c))) = take 1023 v \<and>
           env_count c' = env_count c + 1 \<and> env_buffers_ok c'"
proof -
  let ?i = "nat (env_count c)"
  let ?e = "env c ! ?i"
  let ?e' = "?e\<lparr>env_key := strncpy (env_key ?e) k 255,
                 env_value := strncpy (env_value ?e) v 1023\<rparr>"
  let ?c' = "c\<lparr>env := (env c)[?i := ?e'], env_count := env_count c + 1\<rparr>"
  have i: "?i < 128" using lo hi by simp
  have len: "length (env c) = 128" using ok by (simp add: env_buffers_ok_def)
  have e: "env_var_ok ?e" using ok i by (rule env_buffers_ok_nth)
  have call: "rexos_launch_config_add_env (Some c) (Some k) (Some v) = (0, Some ?c')"
    using hi by (simp add: add_env_accepts)
  have nth: "env ?c' ! ?i = ?e'" using i len by simp
  have key: "c_str (env_key ?e') = take 255 k"
    using e k by (simp add: c_str_strncpy env_var_ok_def)
  have val: "c_str (env_value ?e') = take 1023 v"
    using e v by (simp add: c_str_strncpy env_var_ok_def)
  have e': "env_var_ok ?e'" using e by (rule env_var_ok_strncpy)
  have "list_all env_var_ok ((env c)[?i := ?e'])"
    using ok e' i len by (auto simp: env_buffers_ok_def list_all_length nth_list_update)
  then have ok': "env_buffers_ok ?c'" using len by (simp add: env_buffers_ok_def)
  show ?thesis using call nth key val ok' by simp
qed

theorem add_env_truncation_witness:
  "env_buffers_ok initial_config \<and> 0 \<le> env_count initial_config \<and>
   env_count initial_config < 128 \<and> NUL \<notin> set long_key \<and> NUL \<notin> set ''v'' \<and>
   (\<exists>c'. rexos_launch_config_add_env (Some initial_config) (Some long_key) (Some ''v'') =
            (0, Some c') \<and>
          c_str (env_key (env c' ! 0)) = replicate 255 CHR ''k'' \<and>
          c_str (env_value (env c' ! 0)) = ''v'' \<and> env_count c' = 1)"
  using add_env_truncation [OF env_buffers_ok_initial _ _ no_NUL_long_key no_NUL_example_value]
    env_buffers_ok_initial no_NUL_long_key no_NUL_example_value
  by (auto simp: initial_config_counts long_key_def)

section \<open>CPU usage on the first read\<close>



lemma calculate_cpu_usage_first:
  "calculate_cpu_usage (Some cur) prev_initial =
     ((if first_total cur = 0 then 0
       else real (unat (first_busy cur)) / real (unat (first_total cur)) * 100), cur)"
  by (simp add: calculate_cpu_usage_def prev_initial_def first_total_def first_busy_def Let_def)

lemma calculate_cpu_usage_unreadable: "calculate_cpu_usage None prev = (0, prev)"
  by (simp add: calculate_cpu_usage_def)

text \<open>
  Claim C8 as stated fails: with no previous sample (all \<^verbatim>\<open>prev_\<close> variables 0) and a first
  line of one user tick and one idle tick, the reported usage is 50, not 0.
\<close>

theorem first_read_nonzero_counterexample:
  "fst (calculate_cpu_usage (Some first_counters) prev_initial) = 50 \<and>
   rexos_get_perf_stats_cpu (Some first_counters) prev_initial True =
     (REXOS_OK, Some 50, first_counters)"
  by (simp add: rexos_get_perf_stats_cpu_def calculate_cpu_usage_first first_total_def
      first_busy_def first_counters_def)

text \<open>
  Claim C8, amended.  On the first read (previous sample all zero) the reported CPU usage
  is the busy share of the cumulative counters read from \<^verbatim>\<open>/proc/stat\<close>,
  \<open>busy / total * 100\<close> with the 64-bit sums \<open>first_busy\<close> and \<open>first_total\<close>; it is 0 when
  \<^verbatim>\<open>/proc/stat\<close> cannot be read, and otherwise exactly when the total or the busy sum is 0.
  \<^verbatim>\<open>rexos_get_perf_stats\<close> reports this value unchanged.
\<close>

theorem first_read_cpu_usage:
  "fst (calculate_cpu_usage None prev_initial) = 0 \<and>
   fst (calculate_cpu_usage (Some cur) prev_initial) =
     (if first_total cur = 0 then 0
      else real (unat (first_busy cur)) / real (unat (first_total cur)) * 100) \<and>
   (fst (calculate_cpu_usage (Some cur) prev_initial) = 0 \<longleftrightarrow>
      first_total cur = 0 \<or> first_busy cur = 0) \<and>
   rexos_get_perf_stats_cpu line prev_initial True =
     (REXOS_OK, Some (fst (calculate_cpu_usage line prev_initial)),
      snd (calculate_cpu_usage line prev_initial))"
  by (simp add: calculate_cpu_usage_first calculate_cpu_usage_unreadable
      rexos_get_perf_stats_cpu_def unsigned_eq_0_iff Let_def)

theorem first_read_cpu_usage_witness:
  "fst (calculate_cpu_usage (Some first_counters) prev_initial) = 50 \<and>
   first_total first_counters = 2 \<and> first_busy first_counters = 1 \<and>
   fst (calculate_cpu_usage (Some prev_initial) prev_initial) = 0 \<and>
   first_total prev_initial = 0"
  using first_read_cpu_usage [of first_counters "Some first_counters"]
    first_read_cpu_usage [of prev_initial "Some first_counters"]
  by (simp add: first_total_def first_busy_def first_counters_def prev_initial_def)

section \<open>The order of the argument vector\<close>

lemma copy_custom_args_eq:
  "0 \<le> i \<Longrightarrow> int (length argv) + (arg_count c - i) \<le> max_args - 2 \<Longrightarrow>
     copy_custom_args c max_args i argv =
       argv @ map (\<lambda>j. the (args c ! j)) [nat i ..< nat (arg_count c)]"
proof (induction c max_args i argv rule: copy_custom_args.induct)
  case (1 config max_args i argv)
  show ?case
  proof (cases "i < arg_count config")
    case True
    then have cap: "int (length argv) < max_args - 2" using "1.prems" by simp
    have step: "copy_custom_args config max_args i argv =
        copy_custom_args config max_args (i + 1) (argv @ [the (args config ! nat i)])"
      using True cap by (subst copy_custom_args.simps) simp
    have ih: "copy_custom_args config max_args (i + 1) (argv @ [the (args config ! nat i)]) =
        (argv @ [the (args config ! nat i)]) @
          map (\<lambda>j. the (args config ! j)) [nat (i + 1) ..< nat (arg_count config)]"
      using True cap "1.prems" by (intro "1.IH") simp_all
    have "[nat i ..< nat (arg_count config)] = nat i # [nat (i + 1) ..< nat (arg_count config)]"
      using True "1.prems"(1) by (simp add: upt_conv_Cons nat_add_distrib)
    then show ?thesis using step ih by simp
  next
    case False
    then show ?thesis by (subst copy_custom_args.simps) simp
  qed
qed

lemma map_nth_take: "n \<le> length xs \<Longrightarrow> map (\<lambda>j. f (xs ! j)) [0 ..< n] = map f (take n xs)"
  by (rule nth_equalityI) simp_all

lemma copy_custom_args_all:
  assumes "args_ok c" and "int (length argv) \<le> 30"
  shows "copy_custom_args c (32 + arg_count c) 0 argv = argv @ user_args c"
proof -
  have "copy_custom_args c (32 + arg_count c) 0 argv =
      argv @ map (\<lambda>j. the (args c ! j)) [nat 0 ..< nat (arg_count c)]"
    using assms by (intro copy_custom_args_eq) simp_all
  moreover have "nat (arg_count c) \<le> length (args c)"
    using assms(1) by (auto simp: args_ok_def)
  ultimately show ?thesis by (simp add: user_args_def map_nth_take)
qed

lemma length_retroarch_flags: "length (retroarch_flags c) \<le> 8"
  by (simp add: retroarch_flags_def)

lemma build_argv_retroarch_order:
  assumes "args_ok c" and "emu_type c = REXOS_EMU_RETROARCH"
  shows "build_argv True c =
     Some ([executable c] @
           (if core_path c \<noteq> [] then [''-L'', core_path c] else []) @
           (if config_path c \<noteq> [] then [''--config'', config_path c] else []) @
           (if fullscreen c then [''--fullscreen''] else []) @
           (if verbose c then [''-v''] else []) @
           (if load_state_slot c \<ge> 0 then [''-e'', snprintf_d 8 (load_state_slot c)] else []) @
           user_args c @
           (if rom_path c \<noteq> [] then [rom_path c] else []))"
proof -
  let ?pre = "[executable c] @ retroarch_flags c"
  have "int (length ?pre) \<le> 30" using length_retroarch_flags [of c] by simp
  then have "copy_custom_args c (32 + arg_count c) 0 ?pre = ?pre @ user_args c"
    using assms(1) by (rule copy_custom_args_all [rotated])
  moreover have "build_argv True c =
      Some (copy_custom_args c (32 + arg_count c) 0 ?pre @
            (if rom_path c \<noteq> [] then [rom_path c] else []))"
    using assms(2) by (simp add: build_argv_def Let_def retroarch_flags_def)
  ultimately show ?thesis by (simp add: retroarch_flags_def)
qed

lemma build_argv_other_order:
  assumes "args_ok c" and "emu_type c \<noteq> REXOS_EMU_RETROARCH"
  shows "build_argv True c =
     Some ([executable c] @ user_args c @ (if rom_path c \<noteq> [] then [rom_path c] else []))"
proof -
  have "copy_custom_args c (32 + arg_count c) 0 [executable c] = [executable c] @ user_args c"
    using assms(1) by (intro copy_custom_args_all) simp_all
  then show ?thesis using assms(2) by (simp add: build_argv_def Let_def)
qed

lemma user_args_add_arg:
  assumes "args_ok c" and "arg_count c < 63"
  shows "\<exists>c'. rexos_launch_config_add_arg (Some c) (Some a) True = (0, Some c') \<and>
           user_args c' = user_args c @ [a] \<and> args_ok c' \<and> arg_count c' = arg_count c + 1"
proof -
  let ?n = "nat (arg_count c)"
  let ?c' = "c\<lparr>args := (args c)[?n := Some a], arg_count := arg_count c + 1\<rparr>"
  have n: "?n < length (args c)" and lo: "0 \<le> arg_count c" and len: "length (args c) = 64"
    using assms by (simp_all add: args_ok_def)
  have call: "rexos_launch_config_add_arg (Some c) (Some a) True = (0, Some ?c')"
    using assms lo len by (simp add: add_arg_accepts)
  have "nat (arg_count c + 1) = Suc ?n" using lo by simp
  then have "user_args ?c' = map the (take (Suc ?n) ((args c)[?n := Some a]))"
    by (simp add: user_args_def)
  also have "\<dots> = map the (take ?n (args c)) @ [a]"
    using n by (simp add: take_Suc_conv_app_nth)
  finally have ua: "user_args ?c' = user_args c @ [a]" by (simp add: user_args_def)
  have "take (nat (arg_count c + 1)) ((args c)[?n := Some a]) = take ?n (args c) @ [Some a]"
    using n lo by (simp add: nat_add_distrib take_Suc_conv_app_nth)
  then have "args_ok ?c'" using assms by (simp add: args_ok_def)
  then show ?thesis using call ua by simp
qed

lemma args_ok_initial: "args_ok initial_config" "user_args initial_config = []"
  by (simp_all add: args_ok_def user_args_def initial_config_def)

lemma dec_nat_digit: "n < 10 \<Longrightarrow> dec_nat n = [digit_char n]"
  by (subst dec_nat.simps) simp

lemma dec_nat_step: "10 \<le> n \<Longrightarrow> dec_nat n = dec_nat (n div 10) @ [digit_char (n mod 10)]"
  by (subst dec_nat.simps) simp

lemma dec_nat_12345678: "dec_nat 12345678 = ''12345678''"
  by (simp add: dec_nat_step dec_nat_digit digit_char_def)

lemma length_dec_nat: "n < 10 ^ k \<Longrightarrow> 0 < k \<Longrightarrow> length (dec_nat n) \<le> k"
proof (induction k arbitrary: n)
  case 0
  then show ?case by simp
next
  case (Suc k)
  show ?case
  proof (cases "n < 10")
    case True
    then show ?thesis by (simp add: dec_nat_digit)
  next
    case False
    then have k: "0 < k" using Suc.prems(1) by (cases k) simp_all
    have "n div 10 < 10 ^ k" using Suc.prems(1) by (simp add: less_mult_imp_div_less mult.commute)
    then have "length (dec_nat (n div 10)) \<le> k" using k by (rule Suc.IH)
    then show ?thesis using False by (simp add: dec_nat_step)
  qed
qed

lemma snprintf_d_exact: "0 \<le> n \<Longrightarrow> n < 10000000 \<Longrightarrow> snprintf_d 8 n = fmt_d n"
proof -
  assume n: "0 \<le> n" "n < 10000000"
  then have "nat n < 10 ^ 7" by simp
  then have "length (dec_nat (nat n)) \<le> 7" by (rule length_dec_nat) simp
  then show ?thesis using n by (simp add: snprintf_d_def fmt_d_def)
qed

lemma build_argv_retroarch_decimal:
  assumes "args_ok c" and "emu_type c = REXOS_EMU_RETROARCH" and "load_state_slot c < 10000000"
  shows "build_argv True c =
     Some ([executable c] @
           (if core_path c \<noteq> [] then [''-L'', core_path c] else []) @
           (if config_path c \<noteq> [] then [''--config'', config_path c] else []) @
           (if fullscreen c then [''--fullscreen''] else []) @
           (if verbose c then [''-v''] else []) @
           (if load_state_slot c \<ge> 0 then [''-e'', fmt_d (load_state_slot c)] else []) @
           user_args c @
           (if rom_path c \<noteq> [] then [rom_path c] else []))"
  using assms by (simp add: build_argv_retroarch_order snprintf_d_exact)

lemma build_argv_snes_example:
  "build_argv True snes_config =
     Some [''/bin/retroarch'', ''-L'', ''/cores/snes.so'', ''--fullscreen'', ''/roms/game.sfc'']"
proof -
  have "args_ok snes_config" "emu_type snes_config = REXOS_EMU_RETROARCH"
    "user_args snes_config = []"
    by (simp_all add: snes_config_def args_ok_def user_args_def initial_config_def)
  then show ?thesis
    by (simp add: build_argv_retroarch_order) (simp add: snes_config_def initial_config_def)
qed

text \<open>
  Claim C1.  For a RetroArch configuration \<^verbatim>\<open>build_argv\<close> emits the executable, then
  \<^verbatim>\<open>-L core\<close>, \<^verbatim>\<open>--config path\<close>, \<^verbatim>\<open>--fullscreen\<close>, \<^verbatim>\<open>-v\<close>, \<^verbatim>\<open>-e slot\<close>, the extra
  arguments in insertion order and the ROM path, as \<open>build_argv_retroarch_order\<close> shows; the
  slot is rendered in decimal while it is below 10000000 (\<open>build_argv_retroarch_decimal\<close>),
  and the example of the specification is \<open>build_argv_snes_example\<close>.  The slot
  buffer holds 7 characters, so a larger slot loses its last digits: for slot 12345678 the
  vector names slot \<^verbatim>\<open>1234567\<close>, whereas the decimal rendering is \<^verbatim>\<open>12345678\<close>.
\<close>

theorem build_argv_slot_truncated:
  "build_argv True slot_config = Some [''/bin/retroarch'', ''--fullscreen'', ''-e'', ''1234567''] \<and>
   fmt_d (load_state_slot slot_config) = ''12345678''"
proof -
  have "args_ok slot_config" "emu_type slot_config = REXOS_EMU_RETROARCH"
    "user_args slot_config = []"
    by (simp_all add: slot_config_def args_ok_def user_args_def initial_config_def)
  then have "build_argv True slot_config =
      Some [''/bin/retroarch'', ''--fullscreen'', ''-e'', snprintf_d 8 12345678]"
    by (simp add: build_argv_retroarch_order) (simp add: slot_config_def initial_config_def)
  moreover have "fmt_d 12345678 = ''12345678''"
    by (simp add: fmt_d_def dec_nat_12345678)
  ultimately show ?thesis by (simp add: snprintf_d_def slot_config_def)
qed

section \<open>Waiting with and without a timeout\<close>

lemma sint_add_10:
  fixes e :: "32 word"
  assumes "sint e + 10 \<le> 2147483647"
  shows "sint (e + 10) = sint e + 10"
proof -
  have "sint (e + 10) = signed_take_bit 31 (sint e + 10)"
    by (simp add: sint_word_ariths)
  moreover have "- (2 ^ 31) \<le> sint e + 10"
    using sint_ge [of e] by simp
  moreover have "sint e + 10 < 2 ^ 31"
    using assms by simp
  ultimately show ?thesis
    by (simp add: signed_take_bit_int_eq_self)
qed

lemma wait_poll_running_step:
  assumes "sint elapsed < sint timeout_ms" and "still_running waitpid pid k"
  shows "wait_poll waitpid pid timeout_ms ptr elapsed k tr =
         wait_poll waitpid pid timeout_ms ptr (elapsed + 10) (k + 1)
           (tr @ [Ev_waitpid pid WNOHANG, Ev_usleep 10000])"
  using assms
  by (subst wait_poll.simps) (auto simp: still_running_def split: option.splits)

lemma wait_poll_expired:
  assumes "\<not> sint elapsed < sint timeout_ms"
  shows "wait_poll waitpid pid timeout_ms ptr elapsed k tr =
         Some \<lparr>w_ret = REXOS_ERR_TIMEOUT, exit_code_store = None, w_trace = tr\<rparr>"
  using assms by (subst wait_poll.simps) simp

lemma wait_poll_reaped:
  assumes "sint elapsed < sint timeout_ms" and "waitpid k pid WNOHANG = Some (pid, status)"
  shows "wait_poll waitpid pid timeout_ms ptr elapsed k tr =
         Some \<lparr>w_ret = REXOS_OK, exit_code_store = store_exit_code ptr status,
               w_trace = tr @ [Ev_waitpid pid WNOHANG]\<rparr>"
  using assms by (subst wait_poll.simps) simp

lemma wait_poll_error:
  assumes "sint elapsed < sint timeout_ms" and "waitpid k pid WNOHANG = Some (r, status)"
    and "r \<noteq> pid" and "r < 0"
  shows "wait_poll waitpid pid timeout_ms ptr elapsed k tr =
         Some \<lparr>w_ret = REXOS_ERR_IO, exit_code_store = None,
               w_trace = tr @ [Ev_waitpid pid WNOHANG]\<rparr>"
  using assms by (subst wait_poll.simps) simp

lemma wait_poll_skip:
  assumes "\<forall>j<m. still_running waitpid pid (k + j)"
    and "sint elapsed + 10 * int m \<le> 2147483647"
    and "0 < m \<longrightarrow> sint elapsed + 10 * (int m - 1) < sint timeout_ms"
  shows "\<exists>e'. sint e' = sint elapsed + 10 * int m \<and>
           wait_poll waitpid pid timeout_ms ptr elapsed k tr =
           wait_poll waitpid pid timeout_ms ptr e' (k + m) (tr @ poll_events pid m)"
  using assms
proof (induction m arbitrary: elapsed k tr)
  case 0
  then show ?case by (auto simp: poll_events_def)
next
  case (Suc m)
  have lt: "sint elapsed < sint timeout_ms" using Suc.prems(3) by simp
  have run: "still_running waitpid pid k" using Suc.prems(1) by force
  have s10: "sint (elapsed + 10) = sint elapsed + 10"
    using Suc.prems(2) by (intro sint_add_10) simp
  have step: "wait_poll waitpid pid timeout_ms ptr elapsed k tr =
      wait_poll waitpid pid timeout_ms ptr (elapsed + 10) (k + 1)
        (tr @ [Ev_waitpid pid WNOHANG, Ev_usleep 10000])"
    using lt run by (rule wait_poll_running_step)
  have "\<forall>j<m. still_running waitpid pid (k + 1 + j)"
    using Suc.prems(1) by (metis Suc_less_eq add_Suc_right add_Suc_shift Suc_eq_plus1)
  moreover have "sint (elapsed + 10) + 10 * int m \<le> 2147483647"
    using Suc.prems(2) s10 by simp
  moreover have "0 < m \<longrightarrow> sint (elapsed + 10) + 10 * (int m - 1) < sint timeout_ms"
    using Suc.prems(3) s10 by simp
  ultimately obtain e' where e': "sint e' = sint (elapsed + 10) + 10 * int m"
    and eq: "wait_poll waitpid pid timeout_ms ptr (elapsed + 10) (k + 1)
               (tr @ [Ev_waitpid pid WNOHANG, Ev_usleep 10000]) =
             wait_poll waitpid pid timeout_ms ptr e' (k + 1 + m)
               ((tr @ [Ev_waitpid pid WNOHANG, Ev_usleep 10000]) @ poll_events pid m)"
    using Suc.IH [of "k + 1" "elapsed + 10" "tr @ [Ev_waitpid pid WNOHANG, Ev_usleep 10000]"]
    by blast
  have "sint e' = sint elapsed + 10 * int (Suc m)" using e' s10 by simp
  moreover have "wait_poll waitpid pid timeout_ms ptr elapsed k tr =
      wait_poll waitpid pid timeout_ms ptr e' (k + Suc m) (tr @ poll_events pid (Suc m))"
    using step eq by (simp add: poll_events_def)
  ultimately show ?case by blast
qed



lemma max_polls_bounds:
  assumes "0 < sint timeout_ms"
  shows "10 * int (max_polls timeout_ms) < sint timeout_ms + 10"
    and "sint timeout_ms \<le> 10 * int (max_polls timeout_ms)"
proof -
  let ?q = "(sint timeout_ms + 9) div 10"
  have "sint timeout_ms + 9 = 10 * ?q + (sint timeout_ms + 9) mod 10" by simp
  moreover have "0 \<le> (sint timeout_ms + 9) mod 10" "(sint timeout_ms + 9) mod 10 < 10"
    by simp_all
  ultimately have q: "10 * ?q \<le> sint timeout_ms + 9" "sint timeout_ms < 10 * ?q + 1"
    by linarith+
  then have "0 \<le> ?q" using assms by linarith
  then have "int (max_polls timeout_ms) = ?q" by (simp add: max_polls_def)
  then show "10 * int (max_polls timeout_ms) < sint timeout_ms + 10"
    and "sint timeout_ms \<le> 10 * int (max_polls timeout_ms)"
    using q by linarith+
qed

lemma rexos_wait_invalid:
  "pid \<le> 0 \<Longrightarrow> rexos_wait waitpid pid timeout_ms ptr =
     Some \<lparr>w_ret = REXOS_ERR_INVALID_ARG, exit_code_store = None, w_trace = []\<rparr>"
  by (simp add: rexos_wait_def)

lemma rexos_wait_zero:
  assumes "0 < pid"
  shows "rexos_wait waitpid pid 0 ptr =
     (case waitpid 0 pid WNOHANG of
        None \<Rightarrow> None
      | Some r \<Rightarrow>
          Some \<lparr>w_ret = (if fst r = pid then REXOS_OK
                         else if fst r = 0 then REXOS_ERR_TIMEOUT else REXOS_ERR_IO),
                exit_code_store = (if fst r = pid then store_exit_code ptr (snd r) else None),
                w_trace = [Ev_waitpid pid WNOHANG]\<rparr>)"
  using assms by (simp add: rexos_wait_def wait_once_def WNOHANG_def split: option.splits)

lemma rexos_wait_blocking:
  assumes "0 < pid" and "sint timeout_ms < 0"
  shows "rexos_wait waitpid pid timeout_ms ptr =
     (case waitpid 0 pid 0 of
        None \<Rightarrow> None
      | Some r \<Rightarrow>
          Some \<lparr>w_ret = (if fst r = pid then REXOS_OK else REXOS_ERR_IO),
                exit_code_store = (if fst r = pid then store_exit_code ptr (snd r) else None),
                w_trace = [Ev_waitpid pid 0]\<rparr>)"
  using assms by (simp add: rexos_wait_def wait_once_def split: option.splits)

lemma rexos_wait_timed:
  assumes "0 < pid" and "0 < sint timeout_ms"
  shows "rexos_wait waitpid pid timeout_ms ptr = wait_poll waitpid pid timeout_ms ptr 0 0 []"
  using assms by (simp add: rexos_wait_def)

lemma rexos_wait_timed_exit:
  assumes pid: "0 < pid" and t: "0 < sint timeout_ms" "sint timeout_ms \<le> 2147483640"
    and run: "\<forall>j<m. still_running waitpid pid j"
    and m: "m < max_polls timeout_ms"
    and reap: "waitpid m pid WNOHANG = Some (pid, status)"
  shows "rexos_wait waitpid pid timeout_ms ptr =
     Some \<lparr>w_ret = REXOS_OK, exit_code_store = store_exit_code ptr status,
           w_trace = poll_events pid m @ [Ev_waitpid pid WNOHANG]\<rparr>"
proof -
  have lt: "10 * int m < sint timeout_ms"
    using m max_polls_bounds(1) [OF t(1)] by linarith
  have "\<exists>e'. sint e' = sint (0 :: 32 word) + 10 * int m \<and>
           wait_poll waitpid pid timeout_ms ptr 0 0 [] =
           wait_poll waitpid pid timeout_ms ptr e' (0 + m) ([] @ poll_events pid m)"
    using run lt t by (intro wait_poll_skip) simp_all
  then obtain e' where e': "sint e' = 10 * int m"
    and eq: "wait_poll waitpid pid timeout_ms ptr 0 0 [] =
             wait_poll waitpid pid timeout_ms ptr e' m (poll_events pid m)"
    by auto
  have "sint e' < sint timeout_ms" using e' lt by simp
  then show ?thesis using eq reap pid t by (simp add: rexos_wait_timed wait_poll_reaped)
qed

lemma rexos_wait_timed_error:
  assumes pid: "0 < pid" and t: "0 < sint timeout_ms" "sint timeout_ms \<le> 2147483640"
    and run: "\<forall>j<m. still_running waitpid pid j"
    and m: "m < max_polls timeout_ms"
    and err: "waitpid m pid WNOHANG = Some (r, status)" "r < 0"
  shows "rexos_wait waitpid pid timeout_ms ptr =
     Some \<lparr>w_ret = REXOS_ERR_IO, exit_code_store = None,
           w_trace = poll_events pid m @ [Ev_waitpid pid WNOHANG]\<rparr>"
proof -
  have lt: "10 * int m < sint timeout_ms"
    using m max_polls_bounds(1) [OF t(1)] by linarith
  have "\<exists>e'. sint e' = sint (0 :: 32 word) + 10 * int m \<and>
           wait_poll waitpid pid timeout_ms ptr 0 0 [] =
           wait_poll waitpid pid timeout_ms ptr e' (0 + m) ([] @ poll_events pid m)"
    using run lt t by (intro wait_poll_skip) simp_all
  then obtain e' where e': "sint e' = 10 * int m"
    and eq: "wait_poll waitpid pid timeout_ms ptr 0 0 [] =
             wait_poll waitpid pid timeout_ms ptr e' m (poll_events pid m)"
    by auto
  have "sint e' < sint timeout_ms" using e' lt by simp
  moreover have "r \<noteq> pid" using err(2) pid by simp
  ultimately show ?thesis using eq err pid t by (simp add: rexos_wait_timed wait_poll_error)
qed

lemma rexos_wait_timed_timeout:
  assumes pid: "0 < pid" and t: "0 < sint timeout_ms" "sint timeout_ms \<le> 2147483640"
    and run: "\<forall>j<max_polls timeout_ms. still_running waitpid pid j"
  shows "rexos_wait waitpid pid timeout_ms ptr =
     Some \<lparr>w_ret = REXOS_ERR_TIMEOUT, exit_code_store = None,
           w_trace = poll_events pid (max_polls timeout_ms)\<rparr>"
proof -
  let ?n = "max_polls timeout_ms"
  have n: "10 * (int ?n - 1) < sint timeout_ms" "sint timeout_ms \<le> 10 * int ?n"
    using t max_polls_bounds [of timeout_ms] by simp_all
  have "int ?n \<le> 214748364" using n(1) t(2) by presburger
  then have n_max: "10 * int ?n \<le> 2147483647" by linarith
  have "\<exists>e'. sint e' = sint (0 :: 32 word) + 10 * int ?n \<and>
           wait_poll waitpid pid timeout_ms ptr 0 0 [] =
           wait_poll waitpid pid timeout_ms ptr e' (0 + ?n) ([] @ poll_events pid ?n)"
    using run n n_max by (intro wait_poll_skip) simp_all
  then obtain e' where e': "sint e' = 10 * int ?n"
    and eq: "wait_poll waitpid pid timeout_ms ptr 0 0 [] =
             wait_poll waitpid pid timeout_ms ptr e' ?n (poll_events pid ?n)"
    by auto
  have "\<not> sint e' < sint timeout_ms" using e' n by simp
  then show ?thesis using eq pid t by (simp add: rexos_wait_timed wait_poll_expired)
qed

text \<open>The loop with the largest timeout and a process that keeps running.\<close>

lemma even_lt_INT_MAX:
  fixes e :: "32 word"
  assumes "even e"
  shows "sint e < sint INT_MAX"
proof -
  have "sint e < 2 ^ 31" using sint_lt [of e] by simp
  moreover have "sint e \<noteq> sint INT_MAX"
  proof
    assume "sint e = sint INT_MAX"
    then have "e = INT_MAX" by (rule signed_word_eqI)
    then show False using assms by (simp add: INT_MAX_def)
  qed
  moreover have "sint INT_MAX = 2147483647" by (simp add: INT_MAX_def)
  ultimately show ?thesis by simp
qed

lemma wait_poll_never_returns:
  assumes "wait_poll waitpid pid timeout_ms ptr elapsed k tr = Some y"
  shows "\<not> (timeout_ms = INT_MAX \<and> even elapsed \<and> (\<forall>j. still_running waitpid pid j))"
proof (induction waitpid pid timeout_ms ptr elapsed k tr y rule: wait_poll.raw_induct)
  case (1 wait_poll' waitpid pid timeout_ms ptr elapsed k tr y)
  show ?case
  proof
    assume inv: "timeout_ms = INT_MAX \<and> even elapsed \<and> (\<forall>j. still_running waitpid pid j)"
    then have lt: "sint elapsed < sint timeout_ms" by (simp add: even_lt_INT_MAX)
    have "still_running waitpid pid k" using inv by simp
    then obtain r where r: "waitpid k pid WNOHANG = Some r" "fst r \<noteq> pid" "\<not> fst r < 0"
      by (auto simp: still_running_def split: option.splits)
    have "wait_poll' waitpid pid timeout_ms ptr (elapsed + 10) (k + 1)
            (tr @ [Ev_waitpid pid WNOHANG, Ev_usleep 10000]) = Some y"
      using "1.hyps" lt r by simp
    then have "\<not> (timeout_ms = INT_MAX \<and> even (elapsed + 10) \<and>
        (\<forall>j. still_running waitpid pid j))"
      by (rule "1.IH")
    then show False using inv by simp
  qed
next
  case 2
  show ?case by (rule assms)
qed

lemma still_running_never_exits: "0 < pid \<Longrightarrow> still_running never_exits pid j"
  by (simp add: still_running_def never_exits_def)

text \<open>
  Claim C2.  \<^verbatim>\<open>rexos_wait\<close> rejects a non-positive pid, polls once for timeout 0, blocks in
  one \<^verbatim>\<open>waitpid\<close> for a negative timeout, and for a positive timeout up to 2147483640 polls
  every 10 ms until the process is reaped, \<^verbatim>\<open>waitpid\<close> fails or the timeout is reached
  (lemmas \<open>rexos_wait_invalid\<close> to \<open>rexos_wait_timed_timeout\<close>).  For the timeout
  2147483647 and a process that keeps running, \<^verbatim>\<open>elapsed += 10\<close> wraps after 214748364 polls;
  \<^verbatim>\<open>elapsed\<close> stays even and below the timeout, and the call never returns, so
  \<^verbatim>\<open>REXOS_ERR_TIMEOUT\<close> is never reported.
\<close>

theorem rexos_wait_int_max_never_returns:
  "rexos_wait never_exits 1 INT_MAX True = None \<and> sint INT_MAX = 2147483647"
proof -
  have "wait_poll never_exits 1 INT_MAX True 0 0 [] = None"
  proof (cases "wait_poll never_exits 1 INT_MAX True 0 0 []")
    case None
    then show ?thesis .
  next
    case (Some y)
    then have "\<not> (INT_MAX = INT_MAX \<and> even (0 :: 32 word) \<and>
        (\<forall>j. still_running never_exits 1 j))"
      by (rule wait_poll_never_returns)
    then show ?thesis by (simp add: still_running_never_exits)
  qed
  then show ?thesis by (simp add: rexos_wait_def INT_MAX_def)
qed


lemma still_running_exits_at: "j < n \<Longrightarrow> 0 < pid \<Longrightarrow> still_running (exits_at n code) pid j"
  by (simp add: still_running_def exits_at_def)

lemma wait_example_exit:
  "rexos_wait (exits_at 3 7) 5 100 True =
     Some \<lparr>w_ret = REXOS_OK, exit_code_store = Some 7,
           w_trace = poll_events 5 3 @ [Ev_waitpid 5 WNOHANG]\<rparr>"
proof -
  have "rexos_wait (exits_at 3 7) 5 100 True =
     Some \<lparr>w_ret = REXOS_OK, exit_code_store = store_exit_code True (W_exited 7),
           w_trace = poll_events 5 3 @ [Ev_waitpid 5 WNOHANG]\<rparr>"
    by (rule rexos_wait_timed_exit)
      (simp_all add: still_running_exits_at max_polls_def exits_at_def)
  then show ?thesis by (simp add: store_exit_code_def)
qed

lemma wait_example_timeout:
  "rexos_wait (exits_at 3 7) 5 25 True =
     Some \<lparr>w_ret = REXOS_ERR_TIMEOUT, exit_code_store = None, w_trace = poll_events 5 3\<rparr>"
proof -
  have "max_polls 25 = 3" by (simp add: max_polls_def)
  moreover have "rexos_wait (exits_at 3 7) 5 25 True =
     Some \<lparr>w_ret = REXOS_ERR_TIMEOUT, exit_code_store = None,
           w_trace = poll_events 5 (max_polls 25)\<rparr>"
    by (rule rexos_wait_timed_timeout)
      (simp_all add: still_running_exits_at max_polls_def)
  ultimately show ?thesis by simp
qed

end
